theory Spec2Isabelle
  imports Complex_Main "HOL-Library.Word" "HOL-Library.Signed_Division"
begin

section \<open>The sampling pipeline of fad_adc.c\<close>

text \<open>
  The file keeps its state in globals: two heap buffers, two 16-bit cursors and the
  pointer to the selected algorithm. The model passes the buffers and cursors explicitly;
  what the selected algorithm does is an event of the run, further down. A buffer pointer is
  \<open>None\<close> while it is NULL and \<open>Some xs\<close> once \<open>calloc\<close> returned a block holding
  \<open>xs\<close>. Dereferencing NULL, indexing outside a block and dividing by zero are undefined
  in C; the model stops with a \<open>fault\<close> there, and keeps the state in which it
  stopped.
\<close>

datatype fault = NullDeref | OutOfBounds | DivByZero

text \<open>\<open>esp_err_t\<close> is an int; the two codes of esp_err.h that fad_adc.c names.\<close>

type_synonym esp_err_t = int

definition ESP_OK :: esp_err_t where
  "ESP_OK = 0"

definition ESP_ERR_NO_MEM :: esp_err_t where
  "ESP_ERR_NO_MEM = 0x101"

text \<open>
  \<open>ADC_BUFFER_SIZE\<close> (a macro of fad_defs.h) and \<open>adc_algo_size\<close> are declared outside
  fad_adc.c; they are parameters of the model.
\<close>

record config =
  ADC_BUFFER_SIZE :: nat
  adc_algo_size :: nat

text \<open>\<open>struct adc_buffer_rdy_param\<close>, the payload of \<open>ADC_BUFFER_READY_EVT\<close>.\<close>

record adc_evt_params =
  adc_pos :: "16 word"
  dac_pos :: "16 word"

text \<open>
  What happens in the interrupt context, in program order. The handler itself makes heap
  calls, hands an event to the dispatcher, stores the sample it read (index and value)
  and passes a value to the DAC. Taking a lock and waiting are operations too; the
  handler has no statement that does either, the functions it calls may.
\<close>

datatype isr_op =
    OpMalloc
  | OpDispatch adc_evt_params
  | OpFree
  | OpAdcStore nat "16 word"
  | OpDacOut "8 word"
  | OpLock
  | OpWait

text \<open>
  The globals of fad_adc.c, the state \<open>work_queue\<close> of the dispatcher of fad_app_core
  (of any type \<open>'q\<close>), and the log \<open>effects\<close> of the handler's own operations.
\<close>

record 'q pipeline =
  adc_buffer :: "16 word list option"
  dac_buffer :: "8 word list option"
  adc_buffer_pos :: "16 word"
  dac_buffer_pos :: "16 word"
  work_queue :: 'q
  effects :: "isr_op list"

text \<open>
  A step ends in a state, or in a fault together with the state reached when it
  happened.
\<close>

type_synonym 'q outcome = "fault \<times> 'q pipeline + 'q pipeline"

definition outcome_state :: "'q outcome \<Rightarrow> 'q pipeline" where
  "outcome_state r = (case r of Inl (e, s) \<Rightarrow> s | Inr s \<Rightarrow> s)"

text \<open>The outcome of the two \<open>calloc\<close> calls of \<open>adc_buffer_init\<close>.\<close>

record alloc_env =
  calloc_adc_ok :: bool
  calloc_dac_ok :: bool

text \<open>
  \<open>adc_buffer_init\<close>: \<open>calloc\<close> returns zeroed memory or NULL. The difference
  \<open>ADC_BUFFER_SIZE - adc_algo_size\<close> is computed on ints and stored in a
  \<open>uint16_t\<close>, which keeps its low 16 bits.
\<close>

definition adc_buffer_init :: "config \<Rightarrow> alloc_env \<Rightarrow> 'q pipeline \<Rightarrow> esp_err_t \<times> 'q pipeline" where
  "adc_buffer_init cfg env s =
     (if \<not> calloc_adc_ok env then (ESP_ERR_NO_MEM, s\<lparr>adc_buffer := None\<rparr>)
      else
        let s1 = s\<lparr>adc_buffer := Some (replicate (ADC_BUFFER_SIZE cfg) 0)\<rparr> in
        if \<not> calloc_dac_ok env then (ESP_ERR_NO_MEM, s1\<lparr>dac_buffer := None\<rparr>)
        else
          (ESP_OK,
           s1\<lparr>dac_buffer := Some (replicate (ADC_BUFFER_SIZE cfg) 0),
              adc_buffer_pos := 0,
              dac_buffer_pos := word_of_int (int (ADC_BUFFER_SIZE cfg) - int (adc_algo_size cfg))\<rparr>))"

text \<open>
  What one run of the handler reads from outside: the value \<open>adc1_get_raw\<close> returns, as
  stored in a \<open>uint16_t\<close>, and whether \<open>malloc\<close> returned a block.
\<close>

record tick_in =
  sample :: "16 word"
  malloc_ok :: bool

text \<open>
  Lines 117 to 124. \<open>fad_app_work_dispatch\<close> is the parameter \<open>dispatch\<close>: it gets the
  event and the queue and returns its status and the new queue; the handler drops the
  status. The handler writes through the pointer \<open>malloc\<close> returned without a test:
  when \<open>malloc\<close> returned NULL it stops there, after the one heap call.
\<close>

definition isr_notify ::
  "config \<Rightarrow> (adc_evt_params \<Rightarrow> 'q \<Rightarrow> bool \<times> 'q) \<Rightarrow> tick_in \<Rightarrow> 'q pipeline \<Rightarrow> 'q outcome" where
  "isr_notify cfg dispatch inp s =
     (if adc_algo_size cfg = 0 then Inl (DivByZero, s)
      else if unat (adc_buffer_pos s) mod adc_algo_size cfg = 0 then
        (if \<not> malloc_ok inp then Inl (NullDeref, s\<lparr>effects := effects s @ [OpMalloc]\<rparr>)
         else
           let params = \<lparr>adc_pos = adc_buffer_pos s, dac_pos = dac_buffer_pos s\<rparr> in
           Inr (s\<lparr>work_queue := snd (dispatch params (work_queue s)),
                  effects := effects s @ [OpMalloc, OpDispatch params, OpFree]\<rparr>))
      else Inr s)"

text \<open>Line 126: \<open>adc_buffer[adc_buffer_pos] = adc1_get_raw(ADC1_CHANNEL_0)\<close>.\<close>

definition isr_sample :: "tick_in \<Rightarrow> 'q pipeline \<Rightarrow> 'q outcome" where
  "isr_sample inp s =
     (case adc_buffer s of
        None \<Rightarrow> Inl (NullDeref, s)
      | Some buf \<Rightarrow>
          if unat (adc_buffer_pos s) < length buf then
            Inr (s\<lparr>adc_buffer := Some (buf[unat (adc_buffer_pos s) := sample inp]),
                   effects := effects s @ [OpAdcStore (unat (adc_buffer_pos s)) (sample inp)]\<rparr>)
          else Inl (OutOfBounds, s))"

text \<open>
  Modelled from the spec: \<open>dac_output\<close> of fad_dac.c, which is not among the sources. The
  handler hands it the output buffer and the output cursor; the specification has it emit
  \<open>buffer.output[output_cursor]\<close> to the analog output.
\<close>

definition dac_output :: "8 word list option \<Rightarrow> 16 word \<Rightarrow> fault + 8 word" where
  "dac_output buf pos =
     (case buf of
        None \<Rightarrow> Inl NullDeref
      | Some xs \<Rightarrow> if unat pos < length xs then Inr (xs ! unat pos) else Inl OutOfBounds)"

text \<open>Line 128.\<close>

definition isr_emit :: "'q pipeline \<Rightarrow> 'q outcome" where
  "isr_emit s =
     (case dac_output (dac_buffer s) (dac_buffer_pos s) of
        Inl e \<Rightarrow> Inl (e, s)
      | Inr v \<Rightarrow> Inr (s\<lparr>effects := effects s @ [OpDacOut v]\<rparr>))"

text \<open>
  Lines 131 and 132: the sum and the remainder are computed on ints, the result is stored
  in a \<open>uint16_t\<close>.
\<close>

definition next_pos :: "config \<Rightarrow> 16 word \<Rightarrow> 16 word" where
  "next_pos cfg p = of_nat ((unat p + 1) mod ADC_BUFFER_SIZE cfg)"

definition isr_advance :: "config \<Rightarrow> 'q pipeline \<Rightarrow> 'q outcome" where
  "isr_advance cfg s =
     (if ADC_BUFFER_SIZE cfg = 0 then Inl (DivByZero, s)
      else Inr (s\<lparr>adc_buffer_pos := next_pos cfg (adc_buffer_pos s),
                  dac_buffer_pos := next_pos cfg (dac_buffer_pos s)\<rparr>))"

text \<open>Sequencing of steps that may fault.\<close>

definition and_then :: "'f + 's \<Rightarrow> ('s \<Rightarrow> 'f + 't) \<Rightarrow> 'f + 't" where
  "and_then r f = (case r of Inl e \<Rightarrow> Inl e | Inr x \<Rightarrow> f x)"

text \<open>\<open>adc_timer_intr_handler\<close>; its result \<open>yield\<close> is always false and is left out.\<close>

definition adc_timer_intr_handler ::
  "config \<Rightarrow> (adc_evt_params \<Rightarrow> 'q \<Rightarrow> bool \<times> 'q) \<Rightarrow> tick_in \<Rightarrow> 'q pipeline \<Rightarrow> 'q outcome" where
  "adc_timer_intr_handler cfg dispatch inp s =
     and_then (isr_notify cfg dispatch inp s) (\<lambda>s1.
     and_then (isr_sample inp s1) (\<lambda>s2.
     and_then (isr_emit s2) (\<lambda>s3.
     isr_advance cfg s3)))"

text \<open>
  Between two runs of the handler the worker context runs \<open>algo_function\<close> on pointers
  into the two buffers (\<open>adc_hdl_evt\<close>); the algorithms are not among the sources. A store
  of the worker into the output buffer is the event \<open>WorkerStore\<close>, a timer interrupt is
  \<open>Tick\<close>. The handler is not interrupted by the worker, so it is one step.
\<close>

datatype pipeline_event = Tick tick_in | WorkerStore nat "8 word"

definition worker_store :: "nat \<Rightarrow> 8 word \<Rightarrow> 'q pipeline \<Rightarrow> 'q outcome" where
  "worker_store i v s =
     (case dac_buffer s of
        None \<Rightarrow> Inl (NullDeref, s)
      | Some xs \<Rightarrow>
          if i < length xs then Inr (s\<lparr>dac_buffer := Some (xs[i := v])\<rparr>) else Inl (OutOfBounds, s))"

fun pipeline_step ::
  "config \<Rightarrow> (adc_evt_params \<Rightarrow> 'q \<Rightarrow> bool \<times> 'q) \<Rightarrow> pipeline_event \<Rightarrow> 'q pipeline \<Rightarrow> 'q outcome" where
  "pipeline_step cfg dispatch (Tick inp) s = adc_timer_intr_handler cfg dispatch inp s"
| "pipeline_step cfg dispatch (WorkerStore i v) s = worker_store i v s"

fun pipeline_run ::
  "config \<Rightarrow> (adc_evt_params \<Rightarrow> 'q \<Rightarrow> bool \<times> 'q) \<Rightarrow> pipeline_event list \<Rightarrow> 'q pipeline \<Rightarrow> 'q outcome" where
  "pipeline_run cfg dispatch [] s = Inr s"
| "pipeline_run cfg dispatch (ev # evs) s =
     and_then (pipeline_step cfg dispatch ev s) (pipeline_run cfg dispatch evs)"

text \<open>
  Modelled from the spec: \<open>fad_app_work_dispatch\<close> of fad_app_core, which is not among the
  sources. The specification gives the dispatch queue the contract
  \<open>try_enqueue(event) -> bool\<close> on a bounded FIFO: the event is appended when there is
  room, and refused otherwise.
\<close>

definition try_enqueue :: "nat \<Rightarrow> adc_evt_params \<Rightarrow> adc_evt_params list \<Rightarrow> bool \<times> adc_evt_params list" where
  "try_enqueue cap ev q = (if length q < cap then (True, q @ [ev]) else (False, q))"

text \<open>The globals before \<open>adc_init\<close>: C zero-initialises them.\<close>

definition boot_state :: "'q \<Rightarrow> 'q pipeline" where
  "boot_state q =
     \<lparr>adc_buffer = None, dac_buffer = None, adc_buffer_pos = 0, dac_buffer_pos = 0,
      work_queue = q, effects = []\<rparr>"


text \<open>
  What holds of the buffers and cursors whenever the handler is about to run: both blocks
  are allocated with \<open>ADC_BUFFER_SIZE\<close> elements and both cursors index into them.
\<close>

definition pipeline_inv :: "config \<Rightarrow> 'q pipeline \<Rightarrow> bool" where
  "pipeline_inv cfg s \<longleftrightarrow>
     (case adc_buffer s of None \<Rightarrow> False | Some a \<Rightarrow> length a = ADC_BUFFER_SIZE cfg) \<and>
     (case dac_buffer s of None \<Rightarrow> False | Some d \<Rightarrow> length d = ADC_BUFFER_SIZE cfg) \<and>
     unat (adc_buffer_pos s) < ADC_BUFFER_SIZE cfg \<and>
     unat (dac_buffer_pos s) < ADC_BUFFER_SIZE cfg"

text \<open>Whether the worker stored to index \<open>p\<close> of the output buffer during the events.\<close>

fun worker_wrote :: "nat \<Rightarrow> pipeline_event list \<Rightarrow> bool" where
  "worker_wrote p [] = False"
| "worker_wrote p (Tick inp # evs) = worker_wrote p evs"
| "worker_wrote p (WorkerStore i v # evs) = (i = p \<or> worker_wrote p evs)"

text \<open>
  \<open>fad_app_work_dispatch\<close>, \<open>adc1_get_raw\<close> and \<open>dac_output\<close> are not among the
  sources. The heap calls, locks and waits each of them makes during one run of the
  handler are parameters.
\<close>

record callee_ops =
  in_dispatch :: "isr_op list"
  in_adc1_get_raw :: "isr_op list"
  in_dac_output :: "isr_op list"

text \<open>
  The operations of one run of the handler, those inside the three functions included,
  from the handler's own: the dispatcher runs when the handler hands it the event,
  \<open>adc1_get_raw\<close> before the store of the sample, \<open>dac_output\<close> when the handler passes
  it the value.
\<close>

fun execution_ops :: "callee_ops \<Rightarrow> isr_op list \<Rightarrow> isr_op list" where
  "execution_ops ce [] = []"
| "execution_ops ce (OpDispatch ev # ops) = OpDispatch ev # in_dispatch ce @ execution_ops ce ops"
| "execution_ops ce (OpAdcStore i v # ops) = in_adc1_get_raw ce @ OpAdcStore i v # execution_ops ce ops"
| "execution_ops ce (OpDacOut v # ops) = in_dac_output ce @ OpDacOut v # execution_ops ce ops"
| "execution_ops ce (op # ops) = op # execution_ops ce ops"

text \<open>The operations whose latency has no bound: heap calls, taking a lock, waiting.\<close>

fun unbounded_latency :: "isr_op \<Rightarrow> bool" where
  "unbounded_latency OpMalloc = True"
| "unbounded_latency OpFree = True"
| "unbounded_latency OpLock = True"
| "unbounded_latency OpWait = True"
| "unbounded_latency (OpDispatch ev) = False"
| "unbounded_latency (OpAdcStore i v) = False"
| "unbounded_latency (OpDacOut v) = False"

text \<open>
  An event the environment gets right: \<open>malloc\<close> returns a block, and the worker stores
  inside the output buffer.
\<close>

fun event_ok :: "config \<Rightarrow> pipeline_event \<Rightarrow> bool" where
  "event_ok cfg (Tick inp) = malloc_ok inp"
| "event_ok cfg (WorkerStore i v) = (i < ADC_BUFFER_SIZE cfg)"

text \<open>
  \<open>adc_timer_init\<close>: five calls into driver/timer.h, each assigning its status to
  \<open>err\<close>; the statuses are inputs of the model.
\<close>

record timer_env =
  timer_init_ret :: esp_err_t
  timer_set_counter_value_ret :: esp_err_t
  timer_enable_intr_ret :: esp_err_t
  timer_set_alarm_value_ret :: esp_err_t
  timer_isr_callback_add_ret :: esp_err_t

definition adc_timer_init :: "timer_env \<Rightarrow> esp_err_t" where
  "adc_timer_init tenv =
     (let err = timer_init_ret tenv;
          err = timer_set_counter_value_ret tenv;
          err = timer_enable_intr_ret tenv;
          err = timer_set_alarm_value_ret tenv;
          err = timer_isr_callback_add_ret tenv
      in err)"

text \<open>
  \<open>adc_init\<close>: the two ADC configuration calls and \<open>algo_white_init\<close> do not touch the
  buffers or cursors. \<open>ret\<close> is assigned twice.
\<close>

definition adc_init :: "config \<Rightarrow> alloc_env \<Rightarrow> timer_env \<Rightarrow> 'q pipeline \<Rightarrow> esp_err_t \<times> 'q pipeline" where
  "adc_init cfg env tenv s =
     (let (ret, s1) = adc_buffer_init cfg env s;
          ret = adc_timer_init tenv
      in (ret, s1))"

section \<open>The masking algorithm of algo_masking.c\<close>

text \<open>
  The values a C \<open>float\<close> can hold are among these: the finite ones are reals, and there
  are the two infinities and NaN. The sign of a zero is not kept.
\<close>

datatype fval = Finite real | PlusInf | MinusInf | NaN

text \<open>
  The conversion of an integer to \<open>float\<close>. It is exact up to \<open>2 ^ 24\<close> in absolute
  value, which covers the 16-bit samples and the quotient that initialises
  \<open>s_algo_total_time\<close>; the model uses it on those only.
\<close>

definition float_of_int :: "int \<Rightarrow> fval" where
  "float_of_int n = Finite (of_int n)"

text \<open>The comparison \<open>a > b\<close> of IEEE 754: false whenever an operand is NaN.\<close>

fun float_gt :: "fval \<Rightarrow> fval \<Rightarrow> bool" where
  "float_gt (Finite a) (Finite b) = (a > b)"
| "float_gt PlusInf (Finite b) = True"
| "float_gt PlusInf MinusInf = True"
| "float_gt (Finite a) MinusInf = True"
| "float_gt a b = False"

text \<open>
  Arithmetic that rounds is a parameter of the model: \<open>fl_mag re im\<close> is the \<open>float\<close>
  that \<open>sqrt(pow(re,2) + pow(im,2))\<close> is stored as, and \<open>fl_div a b\<close> the one that the
  quotient \<open>a / b\<close> of finite numbers, \<open>b\<close> not zero, is stored as.
\<close>

record float_arith =
  fl_mag :: "fval \<Rightarrow> fval \<Rightarrow> fval"
  fl_div :: "real \<Rightarrow> real \<Rightarrow> fval"

text \<open>
  Line 67, \<open>k*1.0/s_algo_total_time\<close>. Division by zero does not trap on floats: a
  non-zero dividend gives an infinity and zero by zero gives NaN.
\<close>

definition bin_freq :: "float_arith \<Rightarrow> int \<Rightarrow> fval \<Rightarrow> fval" where
  "bin_freq fa k t =
     (case t of
        Finite x \<Rightarrow>
          if x = 0 then (if 0 < k then PlusInf else if k < 0 then MinusInf else NaN)
          else fl_div fa (of_int k) x
      | PlusInf \<Rightarrow> Finite 0
      | MinusInf \<Rightarrow> Finite 0
      | NaN \<Rightarrow> NaN)"

text \<open>The file-scope variables of algo_masking.c. A C \<open>int\<close> is an \<open>int\<close> here.\<close>

record masking_state =
  s_algo_template_read_size :: int
  s_algo_sampling_freq :: int
  s_algo_total_time :: fval
  s_algo_max_magnitude :: fval
  s_algo_fundamental_freq :: fval
  s_period :: int
  switching_voltage :: int

text \<open>
  Their initialisers, lines 19 to 36. Line 25 divides one \<open>int\<close> by another, which
  truncates, and converts the quotient to \<open>float\<close>.
\<close>

definition masking_statics :: masking_state where
  "masking_statics =
     \<lparr>s_algo_template_read_size = 2048,
      s_algo_sampling_freq = 40000,
      s_algo_total_time = float_of_int (2048 sdiv 40000),
      s_algo_max_magnitude = float_of_int 0,
      s_algo_fundamental_freq = float_of_int 0,
      s_period = 30,
      switching_voltage = 2048\<rparr>"

text \<open>
  The fields \<open>size\<close>, \<open>input\<close> and \<open>output\<close> of \<open>fft_config_t\<close> (fft.h), and those of
  \<open>fad_algo_init_params_t\<close> (fad_defs.h) that \<open>algo_masking_init\<close> reads.
\<close>

record fft_config =
  size_fft :: int
  input_fft :: "fval list"
  output_fft :: "fval list"

record algo_template_params =
  read_size :: int
  period :: int

text \<open>
  Lines 52 to 59: \<open>n\<close> iterations are left, \<open>i\<close> is the loop counter. Each one reads
  \<open>in_buff[in_pos + i]\<close> and stores it in the plan's input array.
\<close>

fun masking_copy :: "16 word list \<Rightarrow> nat \<Rightarrow> nat \<Rightarrow> nat \<Rightarrow> fval list \<Rightarrow> fault + fval list" where
  "masking_copy in_buff in_pos i 0 inp = Inr inp"
| "masking_copy in_buff in_pos i (Suc n) inp =
     (if in_pos + i < length in_buff \<and> i < length inp then
        masking_copy in_buff in_pos (Suc i) n (inp[i := float_of_int (uint (in_buff ! (in_pos + i)))])
      else Inl OutOfBounds)"

text \<open>
  Lines 61 to 73: \<open>n\<close> iterations are left, \<open>k\<close> is the bin. The pair is
  \<open>s_algo_max_magnitude\<close> and \<open>s_algo_fundamental_freq\<close>.
\<close>

fun masking_scan ::
  "float_arith \<Rightarrow> fval \<Rightarrow> fval list \<Rightarrow> nat \<Rightarrow> nat \<Rightarrow> fval \<times> fval \<Rightarrow> fault + fval \<times> fval" where
  "masking_scan fa t out k 0 peak = Inr peak"
| "masking_scan fa t out k (Suc n) peak =
     (if 2 * k + 1 < length out then
        let mag = fl_mag fa (out ! (2 * k)) (out ! (2 * k + 1));
            freq = bin_freq fa (int k) t
        in masking_scan fa t out (Suc k) n (if float_gt mag (fst peak) then (mag, freq) else peak)
      else Inl OutOfBounds)"

text \<open>
  \<open>algo_masking\<close>. The plan \<open>real_fft_plan\<close> it names is not the local variable of
  \<open>algo_masking_init\<close>; it is passed in and returned. The function has no statement that
  runs the transform and none that stores to \<open>out_buff\<close>; the log call is left out. The
  first loop runs \<open>s_algo_template_read_size\<close> times and the second for
  \<open>1 \<le> k < size / 2\<close>.
\<close>

definition algo_masking ::
  "float_arith \<Rightarrow> masking_state \<Rightarrow> fft_config \<Rightarrow> 16 word list \<Rightarrow> 8 word list \<Rightarrow> 16 word \<Rightarrow> 16 word \<Rightarrow> int
     \<Rightarrow> fault + masking_state \<times> fft_config \<times> 8 word list" where
  "algo_masking fa st plan in_buff out_buff in_pos out_pos multisamples =
     and_then (masking_copy in_buff (unat in_pos) 0 (nat (s_algo_template_read_size st)) (input_fft plan)) (\<lambda>inp.
     and_then (masking_scan fa (s_algo_total_time st) (output_fft plan) 1 (nat (size_fft plan sdiv 2) - 1)
                 (s_algo_max_magnitude st, s_algo_fundamental_freq st)) (\<lambda>peak.
     Inr (st\<lparr>s_algo_max_magnitude := fst peak, s_algo_fundamental_freq := snd peak\<rparr>,
          plan\<lparr>input_fft := inp\<rparr>,
          out_buff)))"

text \<open>
  \<open>algo_masking_init\<close> assigns two of the file-scope variables; the two arrays and the
  plan that \<open>fft_init\<close> returns are locals of the function. \<open>algo_masking_deinit\<close> has an
  empty body.
\<close>

definition algo_masking_init :: "algo_template_params \<Rightarrow> masking_state \<Rightarrow> masking_state" where
  "algo_masking_init params st =
     st\<lparr>s_algo_template_read_size := read_size params, s_period := period params\<rparr>"

definition algo_masking_deinit :: "masking_state \<Rightarrow> masking_state" where
  "algo_masking_deinit st = st"

text \<open>
  An arithmetic that does not round, for running the model on inputs whose results are
  exact in single precision.
\<close>

definition exact_arith :: float_arith where
  "exact_arith =
     \<lparr>fl_mag = (\<lambda>re im. case (re, im) of
                  (Finite a, Finite b) \<Rightarrow> Finite (sqrt (a\<^sup>2 + b\<^sup>2))
                | _ \<Rightarrow> NaN),
      fl_div = (\<lambda>a b. Finite (a / b))\<rparr>"

section \<open>Properties of the sampling pipeline\<close>

subsection \<open>The steps of the handler\<close>


lemma pipeline_inv_iff:
  "pipeline_inv cfg s \<longleftrightarrow>
     (\<exists>a. adc_buffer s = Some a \<and> length a = ADC_BUFFER_SIZE cfg) \<and>
     (\<exists>d. dac_buffer s = Some d \<and> length d = ADC_BUFFER_SIZE cfg) \<and>
     unat (adc_buffer_pos s) < ADC_BUFFER_SIZE cfg \<and>
     unat (dac_buffer_pos s) < ADC_BUFFER_SIZE cfg"
  by (auto simp: pipeline_inv_def split: option.splits)

lemma and_then_Inr_iff:
  "and_then r f = Inr y \<longleftrightarrow> (\<exists>x. r = Inr x \<and> f x = Inr y)"
  by (cases r) (simp_all add: and_then_def)

lemma handler_Inr_D:
  assumes "adc_timer_intr_handler cfg dispatch inp s = Inr s'"
  obtains s1 s2 s3 where "isr_notify cfg dispatch inp s = Inr s1" "isr_sample inp s1 = Inr s2"
        "isr_emit s2 = Inr s3" "isr_advance cfg s3 = Inr s'"
proof -
  from assms obtain s1 where 1: "isr_notify cfg dispatch inp s = Inr s1"
    and r1: "and_then (isr_sample inp s1) (\<lambda>s2. and_then (isr_emit s2) (\<lambda>s3. isr_advance cfg s3)) = Inr s'"
    unfolding adc_timer_intr_handler_def by (subst (asm) and_then_Inr_iff) blast
  from r1 obtain s2 where 2: "isr_sample inp s1 = Inr s2"
    and r2: "and_then (isr_emit s2) (\<lambda>s3. isr_advance cfg s3) = Inr s'"
    by (subst (asm) and_then_Inr_iff) blast
  from r2 obtain s3 where 3: "isr_emit s2 = Inr s3" and 4: "isr_advance cfg s3 = Inr s'"
    by (subst (asm) and_then_Inr_iff) blast
  from 1 2 3 4 that show thesis by blast
qed

lemma isr_notify_frame:
  assumes "isr_notify cfg dispatch inp s = Inr s1"
  shows "adc_buffer s1 = adc_buffer s" "dac_buffer s1 = dac_buffer s"
    "adc_buffer_pos s1 = adc_buffer_pos s" "dac_buffer_pos s1 = dac_buffer_pos s"
  using assms by (auto simp: isr_notify_def Let_def split: if_splits)

lemma isr_sample_frame:
  assumes "isr_sample inp s = Inr s2"
  shows "dac_buffer s2 = dac_buffer s"
    "adc_buffer_pos s2 = adc_buffer_pos s" "dac_buffer_pos s2 = dac_buffer_pos s"
    "work_queue s2 = work_queue s"
    "\<exists>buf. adc_buffer s = Some buf \<and> unat (adc_buffer_pos s) < length buf \<and>
       adc_buffer s2 = Some (buf[unat (adc_buffer_pos s) := sample inp])"
  using assms by (auto simp: isr_sample_def split: option.splits if_splits)

lemma isr_emit_frame:
  assumes "isr_emit s = Inr s3"
  shows "adc_buffer s3 = adc_buffer s" "dac_buffer s3 = dac_buffer s"
    "adc_buffer_pos s3 = adc_buffer_pos s" "dac_buffer_pos s3 = dac_buffer_pos s"
    "work_queue s3 = work_queue s"
  using assms by (auto simp: isr_emit_def split: sum.splits)

lemma isr_advance_frame:
  assumes "isr_advance cfg s = Inr s'"
  shows "adc_buffer s' = adc_buffer s" "dac_buffer s' = dac_buffer s"
    "adc_buffer_pos s' = next_pos cfg (adc_buffer_pos s)"
    "dac_buffer_pos s' = next_pos cfg (dac_buffer_pos s)"
    "work_queue s' = work_queue s" "effects s' = effects s"
  using assms by (auto simp: isr_advance_def split: if_splits)

lemma handler_frame:
  assumes "adc_timer_intr_handler cfg dispatch inp s = Inr s'"
  shows "dac_buffer s' = dac_buffer s"
    "adc_buffer_pos s' = next_pos cfg (adc_buffer_pos s)"
    "dac_buffer_pos s' = next_pos cfg (dac_buffer_pos s)"
    "\<exists>buf. adc_buffer s = Some buf \<and> unat (adc_buffer_pos s) < length buf \<and>
       adc_buffer s' = Some (buf[unat (adc_buffer_pos s) := sample inp])"
proof -
  from assms obtain s1 s2 s3 where st: "isr_notify cfg dispatch inp s = Inr s1"
    "isr_sample inp s1 = Inr s2" "isr_emit s2 = Inr s3" "isr_advance cfg s3 = Inr s'"
    by (rule handler_Inr_D)
  show "dac_buffer s' = dac_buffer s"
    by (simp add: isr_advance_frame[OF st(4)] isr_emit_frame[OF st(3)]
        isr_sample_frame(1-4)[OF st(2)] isr_notify_frame[OF st(1)])
  show "adc_buffer_pos s' = next_pos cfg (adc_buffer_pos s)"
    by (simp add: isr_advance_frame[OF st(4)] isr_emit_frame[OF st(3)]
        isr_sample_frame(1-4)[OF st(2)] isr_notify_frame[OF st(1)])
  show "dac_buffer_pos s' = next_pos cfg (dac_buffer_pos s)"
    by (simp add: isr_advance_frame[OF st(4)] isr_emit_frame[OF st(3)]
        isr_sample_frame(1-4)[OF st(2)] isr_notify_frame[OF st(1)])
  show "\<exists>buf. adc_buffer s = Some buf \<and> unat (adc_buffer_pos s) < length buf \<and>
       adc_buffer s' = Some (buf[unat (adc_buffer_pos s) := sample inp])"
    using isr_sample_frame(5)[OF st(2)]
    by (simp add: isr_advance_frame[OF st(4)] isr_emit_frame[OF st(3)] isr_notify_frame[OF st(1)])
qed

lemma unat_next_pos:
  assumes "0 < ADC_BUFFER_SIZE cfg" "ADC_BUFFER_SIZE cfg \<le> 65536"
  shows "unat (next_pos cfg p) = (unat p + 1) mod ADC_BUFFER_SIZE cfg"
proof -
  have "(unat p + 1) mod ADC_BUFFER_SIZE cfg < ADC_BUFFER_SIZE cfg"
    using assms(1) by simp
  then have "(unat p + 1) mod ADC_BUFFER_SIZE cfg < 2 ^ LENGTH(16)"
    using assms(2) by simp
  then show ?thesis
    unfolding next_pos_def by (simp only: unat_of_nat mod_less)
qed

lemma unat_init_dac_pos:
  assumes "B \<le> C"
  shows "unat (word_of_int (int C - int B) :: 16 word) = (C - B) mod 65536"
proof -
  have "int C - int B = int (C - B)" using assms by (simp add: of_nat_diff)
  then have "(word_of_int (int C - int B) :: 16 word) = of_nat (C - B)"
    by (simp only: of_int_of_nat_eq)
  then show ?thesis by (simp only: unat_of_nat) simp
qed

lemma unat_next_pos_less:
  assumes "0 < ADC_BUFFER_SIZE cfg"
  shows "unat (next_pos cfg p) < ADC_BUFFER_SIZE cfg"
proof -
  have "unat (next_pos cfg p) = ((unat p + 1) mod ADC_BUFFER_SIZE cfg) mod 2 ^ LENGTH(16)"
    unfolding next_pos_def by (simp only: unat_of_nat)
  also have "\<dots> \<le> (unat p + 1) mod ADC_BUFFER_SIZE cfg" by (rule mod_less_eq_dividend)
  also have "\<dots> < ADC_BUFFER_SIZE cfg" using assms by simp
  finally show ?thesis .
qed

lemma adc_buffer_init_ok:
  assumes "adc_buffer_init cfg env s = (ESP_OK, s1)"
  shows "adc_buffer s1 = Some (replicate (ADC_BUFFER_SIZE cfg) 0)"
    "dac_buffer s1 = Some (replicate (ADC_BUFFER_SIZE cfg) 0)"
    "adc_buffer_pos s1 = 0"
    "dac_buffer_pos s1 = word_of_int (int (ADC_BUFFER_SIZE cfg) - int (adc_algo_size cfg))"
    "work_queue s1 = work_queue s" "effects s1 = effects s"
  using assms
  by (auto simp: adc_buffer_init_def Let_def ESP_OK_def ESP_ERR_NO_MEM_def split: if_splits)

lemma adc_buffer_init_inv:
  assumes "adc_buffer_init cfg env s = (ESP_OK, s1)"
    and "0 < adc_algo_size cfg" "adc_algo_size cfg \<le> ADC_BUFFER_SIZE cfg"
  shows "pipeline_inv cfg s1"
proof -
  have "unat (dac_buffer_pos s1) = (ADC_BUFFER_SIZE cfg - adc_algo_size cfg) mod 65536"
    by (simp only: adc_buffer_init_ok(4)[OF assms(1)] unat_init_dac_pos[OF assms(3)])
  also have "\<dots> \<le> ADC_BUFFER_SIZE cfg - adc_algo_size cfg" by (rule mod_less_eq_dividend)
  also have "\<dots> < ADC_BUFFER_SIZE cfg" using assms(2,3) by simp
  finally have "unat (dac_buffer_pos s1) < ADC_BUFFER_SIZE cfg" .
  moreover have "unat (adc_buffer_pos s1) < ADC_BUFFER_SIZE cfg"
    using assms(2,3) by (simp add: adc_buffer_init_ok(3)[OF assms(1)])
  ultimately show ?thesis
    unfolding pipeline_inv_iff
    by (simp add: adc_buffer_init_ok(1,2)[OF assms(1)])
qed

lemma handler_inv:
  assumes "adc_timer_intr_handler cfg dispatch inp s = Inr s'" "pipeline_inv cfg s"
    and "0 < ADC_BUFFER_SIZE cfg"
  shows "pipeline_inv cfg s'"
proof -
  from handler_frame(4)[OF assms(1)] obtain buf where
    b: "adc_buffer s = Some buf" "adc_buffer s' = Some (buf[unat (adc_buffer_pos s) := sample inp])"
    by blast
  from assms(2) b(1) have "length buf = ADC_BUFFER_SIZE cfg"
    by (simp add: pipeline_inv_iff)
  with b(2) assms(2) show ?thesis
    unfolding pipeline_inv_iff
    by (simp add: handler_frame(1-3)[OF assms(1)] unat_next_pos_less[OF assms(3)])
qed

lemma worker_store_frame:
  assumes "worker_store i v s = Inr s'"
  shows "adc_buffer s' = adc_buffer s" "adc_buffer_pos s' = adc_buffer_pos s"
    "dac_buffer_pos s' = dac_buffer_pos s" "work_queue s' = work_queue s" "effects s' = effects s"
    "\<exists>xs. dac_buffer s = Some xs \<and> i < length xs \<and> dac_buffer s' = Some (xs[i := v])"
  using assms by (auto simp: worker_store_def split: option.splits if_splits)

lemma worker_store_inv:
  assumes "worker_store i v s = Inr s'" "pipeline_inv cfg s"
  shows "pipeline_inv cfg s'"
proof -
  from worker_store_frame(6)[OF assms(1)] obtain xs where
    x: "dac_buffer s = Some xs" "dac_buffer s' = Some (xs[i := v])" by blast
  from assms(2) x(1) have "length xs = ADC_BUFFER_SIZE cfg"
    by (simp add: pipeline_inv_iff)
  with x(2) assms(2) show ?thesis
    unfolding pipeline_inv_iff by (simp add: worker_store_frame(1-3)[OF assms(1)])
qed

lemma pipeline_step_inv:
  assumes "pipeline_step cfg dispatch ev s = Inr s'" "pipeline_inv cfg s" "0 < ADC_BUFFER_SIZE cfg"
  shows "pipeline_inv cfg s'"
  using assms by (cases ev) (auto intro: handler_inv worker_store_inv)

lemma pipeline_run_inv:
  assumes "pipeline_run cfg dispatch evs s = Inr s'" "pipeline_inv cfg s" "0 < ADC_BUFFER_SIZE cfg"
  shows "pipeline_inv cfg s'"
  using assms
proof (induction evs arbitrary: s)
  case Nil
  then show ?case by simp
next
  case (Cons ev evs)
  from Cons.prems(1) obtain s1 where s1: "pipeline_step cfg dispatch ev s = Inr s1"
    "pipeline_run cfg dispatch evs s1 = Inr s'"
    by (auto simp: and_then_Inr_iff)
  from pipeline_step_inv[OF s1(1) Cons.prems(2,3)] have "pipeline_inv cfg s1" .
  from Cons.IH[OF s1(2) this Cons.prems(3)] show ?case .
qed





lemma replicate_4: "replicate 4 x = [x, x, x, x]"
  by (simp add: numeral_eq_Suc)

subsection \<open>The offset between the cursors\<close>




lemma handler_Inr_pre:
  assumes "adc_timer_intr_handler cfg dispatch inp s = Inr s'"
  shows "0 < adc_algo_size cfg" "0 < ADC_BUFFER_SIZE cfg"
    "\<exists>abuf. adc_buffer s = Some abuf \<and> unat (adc_buffer_pos s) < length abuf"
    "\<exists>dbuf. dac_buffer s = Some dbuf \<and> unat (dac_buffer_pos s) < length dbuf"
    "unat (adc_buffer_pos s) mod adc_algo_size cfg = 0 \<longrightarrow> malloc_ok inp"
proof -
  from assms obtain s1 s2 s3 where st: "isr_notify cfg dispatch inp s = Inr s1"
    "isr_sample inp s1 = Inr s2" "isr_emit s2 = Inr s3" "isr_advance cfg s3 = Inr s'"
    by (rule handler_Inr_D)
  from st(1) show "0 < adc_algo_size cfg"
    by (simp add: isr_notify_def split: if_splits)
  from st(4) show "0 < ADC_BUFFER_SIZE cfg"
    by (simp add: isr_advance_def split: if_splits)
  from st(1) show "unat (adc_buffer_pos s) mod adc_algo_size cfg = 0 \<longrightarrow> malloc_ok inp"
    by (simp add: isr_notify_def split: if_splits)
  from isr_sample_frame(5)[OF st(2)]
  show "\<exists>abuf. adc_buffer s = Some abuf \<and> unat (adc_buffer_pos s) < length abuf"
    by (auto simp: isr_notify_frame[OF st(1)])
  from st(3) have "\<exists>dbuf. dac_buffer s2 = Some dbuf \<and> unat (dac_buffer_pos s2) < length dbuf"
    by (auto simp: isr_emit_def dac_output_def split: sum.splits option.splits if_splits)
  then show "\<exists>dbuf. dac_buffer s = Some dbuf \<and> unat (dac_buffer_pos s) < length dbuf"
    by (simp add: isr_sample_frame(1-3)[OF st(2)] isr_notify_frame[OF st(1)])
qed

lemma handler_closed:
  assumes "0 < adc_algo_size cfg" "0 < ADC_BUFFER_SIZE cfg"
    and "adc_buffer s = Some abuf" "unat (adc_buffer_pos s) < length abuf"
    and "dac_buffer s = Some dbuf" "unat (dac_buffer_pos s) < length dbuf"
    and "unat (adc_buffer_pos s) mod adc_algo_size cfg = 0 \<longrightarrow> malloc_ok inp"
  shows "adc_timer_intr_handler cfg dispatch inp s =
     Inr (s\<lparr>adc_buffer := Some (abuf[unat (adc_buffer_pos s) := sample inp]),
            adc_buffer_pos := next_pos cfg (adc_buffer_pos s),
            dac_buffer_pos := next_pos cfg (dac_buffer_pos s),
            work_queue :=
              (if unat (adc_buffer_pos s) mod adc_algo_size cfg = 0
               then snd (dispatch \<lparr>adc_pos = adc_buffer_pos s, dac_pos = dac_buffer_pos s\<rparr> (work_queue s))
               else work_queue s),
            effects := effects s
              @ (if unat (adc_buffer_pos s) mod adc_algo_size cfg = 0
                 then [OpMalloc, OpDispatch \<lparr>adc_pos = adc_buffer_pos s, dac_pos = dac_buffer_pos s\<rparr>, OpFree]
                 else [])
              @ [OpAdcStore (unat (adc_buffer_pos s)) (sample inp),
                 OpDacOut (dbuf ! unat (dac_buffer_pos s))]\<rparr>)"
  using assms
  by (simp add: adc_timer_intr_handler_def and_then_def isr_notify_def isr_sample_def
      isr_emit_def dac_output_def isr_advance_def Let_def)

lemma pipeline_inv_buffers:
  assumes "pipeline_inv cfg s"
  obtains abuf dbuf where "adc_buffer s = Some abuf" "unat (adc_buffer_pos s) < length abuf"
    "dac_buffer s = Some dbuf" "unat (dac_buffer_pos s) < length dbuf"
  using assms unfolding pipeline_inv_iff by auto

subsection \<open>Runs that do not fault\<close>

text \<open>
  From a state with both buffers allocated and the cursors in range, a run of events the
  environment gets right returns a state: the handler and the worker never leave the
  buffers.
\<close>

lemma pipeline_step_returns:
  assumes "pipeline_inv cfg s" "0 < adc_algo_size cfg" "event_ok cfg ev"
  shows "\<exists>s'. pipeline_step cfg dispatch ev s = Inr s'"
proof (cases ev)
  case (Tick inp)
  from assms(1) obtain abuf dbuf where b: "adc_buffer s = Some abuf"
    "unat (adc_buffer_pos s) < length abuf" "dac_buffer s = Some dbuf"
    "unat (dac_buffer_pos s) < length dbuf"
    by (rule pipeline_inv_buffers)
  from assms(1) have C: "0 < ADC_BUFFER_SIZE cfg"
    by (auto simp: pipeline_inv_iff)
  from assms(3) Tick have m: "unat (adc_buffer_pos s) mod adc_algo_size cfg = 0 \<longrightarrow> malloc_ok inp"
    by simp
  show ?thesis
    by (simp only: Tick pipeline_step.simps handler_closed[OF assms(2) C b m]) blast
next
  case (WorkerStore i v)
  with assms(1,3) show ?thesis
    by (auto simp: worker_store_def pipeline_inv_iff)
qed

lemma pipeline_run_returns:
  assumes "pipeline_inv cfg s" "0 < adc_algo_size cfg" "list_all (event_ok cfg) evs"
  shows "\<exists>s'. pipeline_run cfg dispatch evs s = Inr s'"
  using assms(1,3)
proof (induction evs arbitrary: s)
  case Nil
  then show ?case by simp
next
  case (Cons ev evs)
  from Cons.prems(2) have ok: "event_ok cfg ev" "list_all (event_ok cfg) evs" by simp_all
  from pipeline_step_returns[OF Cons.prems(1) assms(2) ok(1)]
  obtain s1 where s1: "pipeline_step cfg dispatch ev s = Inr s1" by blast
  from Cons.prems(1) have C: "0 < ADC_BUFFER_SIZE cfg"
    by (auto simp: pipeline_inv_iff)
  from pipeline_step_inv[OF s1 Cons.prems(1) C] have "pipeline_inv cfg s1" .
  from Cons.IH[OF this ok(2)] s1 show ?case
    by (simp add: and_then_def)
qed

subsection \<open>One run of the handler\<close>

text \<open>
  C2. In a state where both buffers are allocated and the cursors index into them, with a
  block size above zero and a capacity of at most 65536, and with \<open>malloc\<close> returning a
  block if it is called, one run of the handler does the following, in this order. If the
  input cursor is a multiple of the block size it builds an event holding the input
  cursor and the output cursor and passes it to the dispatcher once. It stores the sample
  at the input cursor of the input buffer. It passes the element at the output cursor of
  the output buffer to the DAC. It sets each cursor to its successor modulo the capacity.
\<close>

theorem adc_timer_intr_handler_steps:
  assumes "pipeline_inv cfg s" "0 < adc_algo_size cfg" "ADC_BUFFER_SIZE cfg \<le> 65536"
    and "unat (adc_buffer_pos s) mod adc_algo_size cfg = 0 \<longrightarrow> malloc_ok inp"
  shows "\<exists>abuf dbuf s'. adc_buffer s = Some abuf \<and> dac_buffer s = Some dbuf \<and>
     adc_timer_intr_handler cfg dispatch inp s = Inr s' \<and>
     s' = s\<lparr>work_queue :=
              (if unat (adc_buffer_pos s) mod adc_algo_size cfg = 0
               then snd (dispatch \<lparr>adc_pos = adc_buffer_pos s, dac_pos = dac_buffer_pos s\<rparr> (work_queue s))
               else work_queue s),
            adc_buffer := Some (abuf[unat (adc_buffer_pos s) := sample inp]),
            effects := effects s
              @ (if unat (adc_buffer_pos s) mod adc_algo_size cfg = 0
                 then [OpMalloc, OpDispatch \<lparr>adc_pos = adc_buffer_pos s, dac_pos = dac_buffer_pos s\<rparr>, OpFree]
                 else [])
              @ [OpAdcStore (unat (adc_buffer_pos s)) (sample inp),
                 OpDacOut (dbuf ! unat (dac_buffer_pos s))],
            adc_buffer_pos := of_nat ((unat (adc_buffer_pos s) + 1) mod ADC_BUFFER_SIZE cfg),
            dac_buffer_pos := of_nat ((unat (dac_buffer_pos s) + 1) mod ADC_BUFFER_SIZE cfg)\<rparr> \<and>
     unat (adc_buffer_pos s') = (unat (adc_buffer_pos s) + 1) mod ADC_BUFFER_SIZE cfg \<and>
     unat (dac_buffer_pos s') = (unat (dac_buffer_pos s) + 1) mod ADC_BUFFER_SIZE cfg"
proof -
  from assms(1) obtain abuf dbuf where b: "adc_buffer s = Some abuf"
    "unat (adc_buffer_pos s) < length abuf" "dac_buffer s = Some dbuf"
    "unat (dac_buffer_pos s) < length dbuf"
    by (rule pipeline_inv_buffers)
  from assms(1) have C: "0 < ADC_BUFFER_SIZE cfg"
    by (auto simp: pipeline_inv_iff)
  have u: "unat (word_of_nat (Suc (unat p) mod ADC_BUFFER_SIZE cfg) :: 16 word)
      = Suc (unat p) mod ADC_BUFFER_SIZE cfg" for p :: "16 word"
    using unat_next_pos[OF C assms(3), of p] by (simp add: next_pos_def)
  show ?thesis
    using b(1,3) by (simp add: handler_closed[OF assms(2) C b assms(4)] next_pos_def u)
qed

lemmas run_defs = adc_buffer_init_def boot_state_def adc_timer_intr_handler_def and_then_def
  isr_notify_def isr_sample_def isr_emit_def dac_output_def isr_advance_def next_pos_def
  worker_store_def try_enqueue_def ESP_OK_def Let_def

theorem adc_timer_intr_handler_steps_witness:
  "adc_timer_intr_handler \<lparr>ADC_BUFFER_SIZE = 4, adc_algo_size = 2\<rparr> (try_enqueue 1)
     \<lparr>sample = 7, malloc_ok = True\<rparr>
     \<lparr>adc_buffer = Some [0, 0, 0, 0], dac_buffer = Some [0, 0, 5, 0],
      adc_buffer_pos = 0, dac_buffer_pos = 2,
      work_queue = [], effects = []\<rparr> =
   Inr \<lparr>adc_buffer = Some [7, 0, 0, 0], dac_buffer = Some [0, 0, 5, 0],
      adc_buffer_pos = 1, dac_buffer_pos = 3,
      work_queue = [\<lparr>adc_pos = 0, dac_pos = 2\<rparr>],
      effects = [OpMalloc, OpDispatch \<lparr>adc_pos = 0, dac_pos = 2\<rparr>, OpFree,
        OpAdcStore 0 7, OpDacOut 5]\<rparr>"
proof -
  let ?cfg = "\<lparr>ADC_BUFFER_SIZE = 4, adc_algo_size = 2\<rparr>"
  let ?s = "\<lparr>adc_buffer = Some [0, 0, 0, 0], dac_buffer = Some [0, 0, 5, 0],
      adc_buffer_pos = 0, dac_buffer_pos = 2,
      work_queue = ([] :: adc_evt_params list), effects = []\<rparr>"
  let ?inp = "\<lparr>sample = 7, malloc_ok = True\<rparr>"
  have i: "pipeline_inv ?cfg ?s" by (simp add: pipeline_inv_iff)
  have b: "0 < adc_algo_size ?cfg" and c: "ADC_BUFFER_SIZE ?cfg \<le> 65536" by simp_all
  have m: "unat (adc_buffer_pos ?s) mod adc_algo_size ?cfg = 0 \<longrightarrow> malloc_ok ?inp" by simp
  from adc_timer_intr_handler_steps[OF i b c m, of "try_enqueue 1"]
  show ?thesis by (simp add: try_enqueue_def)
qed

text \<open>
  Right after initialisation, with \<open>malloc\<close> returning NULL, the handler stops at the
  write through the pointer: it has stored, emitted and advanced nothing. With a capacity
  of 131072 a cursor at 65535 is set to 0, and its successor modulo the capacity is 65536.
\<close>

theorem adc_timer_intr_handler_steps_counterexample:
  "adc_timer_intr_handler \<lparr>ADC_BUFFER_SIZE = 4, adc_algo_size = 2\<rparr> (try_enqueue 1)
     \<lparr>sample = 7, malloc_ok = False\<rparr>
     \<lparr>adc_buffer = Some [0, 0, 0, 0], dac_buffer = Some [0, 0, 0, 0],
      adc_buffer_pos = 0, dac_buffer_pos = 2,
      work_queue = [], effects = []\<rparr> =
   Inl (NullDeref,
     \<lparr>adc_buffer = Some [0, 0, 0, 0], dac_buffer = Some [0, 0, 0, 0],
      adc_buffer_pos = 0, dac_buffer_pos = 2,
      work_queue = [], effects = [OpMalloc]\<rparr>) \<and>
   pipeline_inv \<lparr>ADC_BUFFER_SIZE = 131072, adc_algo_size = 65536\<rparr>
     \<lparr>adc_buffer = Some (replicate 131072 0), dac_buffer = Some (replicate 131072 0),
      adc_buffer_pos = 65535, dac_buffer_pos = 65535,
      work_queue = ([] :: adc_evt_params list), effects = []\<rparr> \<and>
   adc_timer_intr_handler \<lparr>ADC_BUFFER_SIZE = 131072, adc_algo_size = 65536\<rparr> (try_enqueue 1)
     \<lparr>sample = 7, malloc_ok = True\<rparr>
     \<lparr>adc_buffer = Some (replicate 131072 0), dac_buffer = Some (replicate 131072 0),
      adc_buffer_pos = 65535, dac_buffer_pos = 65535,
      work_queue = [], effects = []\<rparr> =
   Inr \<lparr>adc_buffer = Some ((replicate 131072 0)[65535 := 7]), dac_buffer = Some (replicate 131072 0),
      adc_buffer_pos = 0, dac_buffer_pos = 0,
      work_queue = [], effects = [OpAdcStore 65535 7, OpDacOut 0]\<rparr> \<and>
   (unat (65535 :: 16 word) + 1) mod ADC_BUFFER_SIZE \<lparr>ADC_BUFFER_SIZE = 131072, adc_algo_size = 65536\<rparr>
     = 65536"
  by (simp add: run_defs pipeline_inv_def)

subsection \<open>Heap calls, locks and waits in the interrupt context\<close>

lemma handler_malloc_null:
  assumes "0 < adc_algo_size cfg" "unat (adc_buffer_pos s) mod adc_algo_size cfg = 0"
    and "\<not> malloc_ok inp"
  shows "adc_timer_intr_handler cfg dispatch inp s =
     Inl (NullDeref, s\<lparr>effects := effects s @ [OpMalloc]\<rparr>)"
  using assms by (simp add: adc_timer_intr_handler_def and_then_def isr_notify_def)

text \<open>
  C3. In every run of the handler from a state with both buffers allocated and the
  cursors in range, with a block size above zero, whatever the three functions it calls
  do inside, the heap calls, locks and waits of the run are these, in this order. When the input cursor is a multiple of
  the block size: one \<open>malloc\<close> of the handler; then, if \<open>malloc\<close> returned a block,
  those inside the dispatcher, one \<open>free\<close> of the handler, those inside
  \<open>adc1_get_raw\<close> and those inside \<open>dac_output\<close>; if it returned NULL, nothing more.
  Otherwise: those inside \<open>adc1_get_raw\<close> and those inside \<open>dac_output\<close>.
\<close>

theorem isr_unbounded_latency_ops:
  assumes "pipeline_inv cfg s" "0 < adc_algo_size cfg"
  shows "take (length (effects s))
           (effects (outcome_state (adc_timer_intr_handler cfg dispatch inp s))) = effects s \<and>
         filter unbounded_latency
           (execution_ops ce (drop (length (effects s))
              (effects (outcome_state (adc_timer_intr_handler cfg dispatch inp s))))) =
           (if unat (adc_buffer_pos s) mod adc_algo_size cfg = 0 then
              (if malloc_ok inp then
                 OpMalloc # filter unbounded_latency (in_dispatch ce) @ OpFree #
                   filter unbounded_latency (in_adc1_get_raw ce) @
                   filter unbounded_latency (in_dac_output ce)
               else [OpMalloc])
            else filter unbounded_latency (in_adc1_get_raw ce) @
                   filter unbounded_latency (in_dac_output ce))"
proof (cases "unat (adc_buffer_pos s) mod adc_algo_size cfg = 0 \<and> \<not> malloc_ok inp")
  case True
  then show ?thesis
    by (simp add: handler_malloc_null[OF assms(2)] outcome_state_def)
next
  case False
  then have m: "unat (adc_buffer_pos s) mod adc_algo_size cfg = 0 \<longrightarrow> malloc_ok inp"
    by auto
  from assms(1) obtain abuf dbuf where b: "adc_buffer s = Some abuf"
    "unat (adc_buffer_pos s) < length abuf" "dac_buffer s = Some dbuf"
    "unat (dac_buffer_pos s) < length dbuf"
    by (rule pipeline_inv_buffers)
  from assms(1) have C: "0 < ADC_BUFFER_SIZE cfg"
    by (auto simp: pipeline_inv_iff)
  show ?thesis
    using m by (simp add: handler_closed[OF assms(2) C b m] outcome_state_def)
qed

theorem isr_unbounded_latency_ops_witness:
  "filter unbounded_latency
     (execution_ops \<lparr>in_dispatch = [OpMalloc, OpLock], in_adc1_get_raw = [OpLock], in_dac_output = []\<rparr>
       (drop (length ([] :: isr_op list))
         (effects (outcome_state
           (adc_timer_intr_handler \<lparr>ADC_BUFFER_SIZE = 4, adc_algo_size = 2\<rparr> (try_enqueue 1)
              \<lparr>sample = 7, malloc_ok = True\<rparr>
              \<lparr>adc_buffer = Some [0, 0, 0, 0], dac_buffer = Some [0, 0, 0, 0],
               adc_buffer_pos = 0, dac_buffer_pos = 2,
               work_queue = [], effects = []\<rparr>))))) =
   [OpMalloc, OpMalloc, OpLock, OpFree, OpLock] \<and>
   effects (outcome_state
     (adc_timer_intr_handler \<lparr>ADC_BUFFER_SIZE = 4, adc_algo_size = 2\<rparr> (try_enqueue 1)
        \<lparr>sample = 7, malloc_ok = False\<rparr>
        \<lparr>adc_buffer = Some [0, 0, 0, 0], dac_buffer = Some [0, 0, 0, 0],
         adc_buffer_pos = 0, dac_buffer_pos = 2,
         work_queue = [], effects = []\<rparr>)) = [OpMalloc]"
proof -
  let ?cfg = "\<lparr>ADC_BUFFER_SIZE = 4, adc_algo_size = 2\<rparr>"
  let ?s = "\<lparr>adc_buffer = Some [0, 0, 0, 0], dac_buffer = Some [0, 0, 0, 0],
      adc_buffer_pos = 0, dac_buffer_pos = 2,
      work_queue = ([] :: adc_evt_params list), effects = []\<rparr>"
  have i: "pipeline_inv ?cfg ?s" by (simp add: pipeline_inv_iff)
  have b: "0 < adc_algo_size ?cfg" by simp
  from isr_unbounded_latency_ops[OF i b, of "try_enqueue 1" "\<lparr>sample = 7, malloc_ok = True\<rparr>"
      "\<lparr>in_dispatch = [OpMalloc, OpLock], in_adc1_get_raw = [OpLock], in_dac_output = []\<rparr>"]
    isr_unbounded_latency_ops[OF i b, of "try_enqueue 1" "\<lparr>sample = 7, malloc_ok = False\<rparr>"
      "\<lparr>in_dispatch = [], in_adc1_get_raw = [], in_dac_output = []\<rparr>"]
  show ?thesis by (simp add: run_defs outcome_state_def)
qed

text \<open>
  On the first interrupt after initialisation the input cursor is 0: the handler calls
  \<open>malloc\<close>.
\<close>

theorem isr_heap_calls_counterexample:
  "adc_timer_intr_handler \<lparr>ADC_BUFFER_SIZE = 4, adc_algo_size = 2\<rparr> (try_enqueue 1)
     \<lparr>sample = 7, malloc_ok = True\<rparr>
     \<lparr>adc_buffer = Some [0, 0, 0, 0], dac_buffer = Some [0, 0, 0, 0],
      adc_buffer_pos = 0, dac_buffer_pos = 2,
      work_queue = [], effects = []\<rparr> =
   Inr \<lparr>adc_buffer = Some [7, 0, 0, 0], dac_buffer = Some [0, 0, 0, 0],
      adc_buffer_pos = 1, dac_buffer_pos = 3,
      work_queue = [\<lparr>adc_pos = 0, dac_pos = 2\<rparr>],
      effects = [OpMalloc, OpDispatch \<lparr>adc_pos = 0, dac_pos = 2\<rparr>, OpFree,
        OpAdcStore 0 7, OpDacOut 0]\<rparr> \<and>
   OpMalloc \<in> set [OpMalloc, OpDispatch \<lparr>adc_pos = 0, dac_pos = 2\<rparr>, OpFree,
        OpAdcStore 0 7, OpDacOut 0]"
  by (simp add: run_defs)

subsection \<open>A refused dispatch\<close>

text \<open>
  C9. When the input cursor is a multiple of the block size and the dispatcher refuses the
  event, leaving its queue as it was, the handler passes the event to the dispatcher once
  and does not look at the status: it stores the sample, emits the output element and
  advances both cursors, and with any other dispatcher the resulting state differs in the
  queue only.
\<close>

theorem isr_dispatch_failure_dropped:
  assumes "pipeline_inv cfg s" "0 < adc_algo_size cfg"
    and "unat (adc_buffer_pos s) mod adc_algo_size cfg = 0" "malloc_ok inp"
    and "dispatch \<lparr>adc_pos = adc_buffer_pos s, dac_pos = dac_buffer_pos s\<rparr> (work_queue s)
           = (False, work_queue s)"
  shows "\<exists>abuf dbuf. adc_buffer s = Some abuf \<and> dac_buffer s = Some dbuf \<and>
     adc_timer_intr_handler cfg dispatch inp s =
       Inr (s\<lparr>adc_buffer := Some (abuf[unat (adc_buffer_pos s) := sample inp]),
              effects := effects s @
                [OpMalloc, OpDispatch \<lparr>adc_pos = adc_buffer_pos s, dac_pos = dac_buffer_pos s\<rparr>, OpFree,
                 OpAdcStore (unat (adc_buffer_pos s)) (sample inp),
                 OpDacOut (dbuf ! unat (dac_buffer_pos s))],
              adc_buffer_pos := of_nat ((unat (adc_buffer_pos s) + 1) mod ADC_BUFFER_SIZE cfg),
              dac_buffer_pos := of_nat ((unat (dac_buffer_pos s) + 1) mod ADC_BUFFER_SIZE cfg)\<rparr>) \<and>
     adc_timer_intr_handler cfg other inp s =
       Inr (s\<lparr>work_queue :=
                snd (other \<lparr>adc_pos = adc_buffer_pos s, dac_pos = dac_buffer_pos s\<rparr> (work_queue s)),
              adc_buffer := Some (abuf[unat (adc_buffer_pos s) := sample inp]),
              effects := effects s @
                [OpMalloc, OpDispatch \<lparr>adc_pos = adc_buffer_pos s, dac_pos = dac_buffer_pos s\<rparr>, OpFree,
                 OpAdcStore (unat (adc_buffer_pos s)) (sample inp),
                 OpDacOut (dbuf ! unat (dac_buffer_pos s))],
              adc_buffer_pos := of_nat ((unat (adc_buffer_pos s) + 1) mod ADC_BUFFER_SIZE cfg),
              dac_buffer_pos := of_nat ((unat (dac_buffer_pos s) + 1) mod ADC_BUFFER_SIZE cfg)\<rparr>)"
proof -
  from assms(1) obtain abuf dbuf where b: "adc_buffer s = Some abuf"
    "unat (adc_buffer_pos s) < length abuf" "dac_buffer s = Some dbuf"
    "unat (dac_buffer_pos s) < length dbuf"
    by (rule pipeline_inv_buffers)
  from assms(1) have C: "0 < ADC_BUFFER_SIZE cfg"
    by (auto simp: pipeline_inv_iff)
  have m: "unat (adc_buffer_pos s) mod adc_algo_size cfg = 0 \<longrightarrow> malloc_ok inp"
    using assms(4) by simp
  show ?thesis
    using b(1,3) assms(3,5)
    by (simp add: handler_closed[OF assms(2) C b m] next_pos_def)
qed

theorem isr_dispatch_failure_dropped_witness:
  "adc_timer_intr_handler \<lparr>ADC_BUFFER_SIZE = 4, adc_algo_size = 2\<rparr> (try_enqueue 1)
     \<lparr>sample = 5, malloc_ok = True\<rparr>
     \<lparr>adc_buffer = Some [7, 8, 0, 0], dac_buffer = Some [0, 0, 0, 0],
      adc_buffer_pos = 2, dac_buffer_pos = 0,
      work_queue = [\<lparr>adc_pos = 0, dac_pos = 2\<rparr>], effects = []\<rparr> =
   Inr \<lparr>adc_buffer = Some [7, 8, 5, 0], dac_buffer = Some [0, 0, 0, 0],
      adc_buffer_pos = 3, dac_buffer_pos = 1,
      work_queue = [\<lparr>adc_pos = 0, dac_pos = 2\<rparr>],
      effects = [OpMalloc, OpDispatch \<lparr>adc_pos = 2, dac_pos = 0\<rparr>, OpFree,
        OpAdcStore 2 5, OpDacOut 0]\<rparr> \<and>
   adc_timer_intr_handler \<lparr>ADC_BUFFER_SIZE = 4, adc_algo_size = 2\<rparr> (try_enqueue 2)
     \<lparr>sample = 5, malloc_ok = True\<rparr>
     \<lparr>adc_buffer = Some [7, 8, 0, 0], dac_buffer = Some [0, 0, 0, 0],
      adc_buffer_pos = 2, dac_buffer_pos = 0,
      work_queue = [\<lparr>adc_pos = 0, dac_pos = 2\<rparr>], effects = []\<rparr> =
   Inr \<lparr>adc_buffer = Some [7, 8, 5, 0], dac_buffer = Some [0, 0, 0, 0],
      adc_buffer_pos = 3, dac_buffer_pos = 1,
      work_queue = [\<lparr>adc_pos = 0, dac_pos = 2\<rparr>, \<lparr>adc_pos = 2, dac_pos = 0\<rparr>],
      effects = [OpMalloc, OpDispatch \<lparr>adc_pos = 2, dac_pos = 0\<rparr>, OpFree,
        OpAdcStore 2 5, OpDacOut 0]\<rparr>"
proof -
  let ?cfg = "\<lparr>ADC_BUFFER_SIZE = 4, adc_algo_size = 2\<rparr>"
  let ?s = "\<lparr>adc_buffer = Some [7, 8, 0, 0], dac_buffer = Some [0, 0, 0, 0],
      adc_buffer_pos = 2, dac_buffer_pos = 0,
      work_queue = [\<lparr>adc_pos = 0, dac_pos = 2\<rparr>], effects = []\<rparr>"
  let ?inp = "\<lparr>sample = 5, malloc_ok = True\<rparr>"
  have i: "pipeline_inv ?cfg ?s" by (simp add: pipeline_inv_iff)
  have b: "0 < adc_algo_size ?cfg" by simp
  have k: "unat (adc_buffer_pos ?s) mod adc_algo_size ?cfg = 0" by simp
  have m: "malloc_ok ?inp" by simp
  have f: "try_enqueue 1 \<lparr>adc_pos = adc_buffer_pos ?s, dac_pos = dac_buffer_pos ?s\<rparr> (work_queue ?s)
             = (False, work_queue ?s)"
    by (simp add: try_enqueue_def)
  from isr_dispatch_failure_dropped[where dispatch = "try_enqueue 1" and other = "try_enqueue 2",
      OF i b k m f]
  show ?thesis by (simp add: try_enqueue_def)
qed

text \<open>
  A run in which the event is refused (the queue of capacity 1 is full) and a run in which
  it is accepted end in the same state and the same log: nothing records the refusal.
\<close>

theorem isr_dispatch_failure_counterexample:
  "fst (try_enqueue 1 \<lparr>adc_pos = 0, dac_pos = 2\<rparr> [\<lparr>adc_pos = 0, dac_pos = 2\<rparr>]) = False \<and>
   fst (try_enqueue 1 \<lparr>adc_pos = 0, dac_pos = 2\<rparr> []) = True \<and>
   adc_timer_intr_handler \<lparr>ADC_BUFFER_SIZE = 4, adc_algo_size = 2\<rparr> (try_enqueue 1)
     \<lparr>sample = 7, malloc_ok = True\<rparr>
     \<lparr>adc_buffer = Some [0, 0, 0, 0], dac_buffer = Some [0, 0, 0, 0],
      adc_buffer_pos = 0, dac_buffer_pos = 2,
      work_queue = [\<lparr>adc_pos = 0, dac_pos = 2\<rparr>], effects = []\<rparr> =
   adc_timer_intr_handler \<lparr>ADC_BUFFER_SIZE = 4, adc_algo_size = 2\<rparr> (try_enqueue 1)
     \<lparr>sample = 7, malloc_ok = True\<rparr>
     \<lparr>adc_buffer = Some [0, 0, 0, 0], dac_buffer = Some [0, 0, 0, 0],
      adc_buffer_pos = 0, dac_buffer_pos = 2,
      work_queue = [], effects = []\<rparr> \<and>
   adc_timer_intr_handler \<lparr>ADC_BUFFER_SIZE = 4, adc_algo_size = 2\<rparr> (try_enqueue 1)
     \<lparr>sample = 7, malloc_ok = True\<rparr>
     \<lparr>adc_buffer = Some [0, 0, 0, 0], dac_buffer = Some [0, 0, 0, 0],
      adc_buffer_pos = 0, dac_buffer_pos = 2,
      work_queue = [\<lparr>adc_pos = 0, dac_pos = 2\<rparr>], effects = []\<rparr> =
   Inr \<lparr>adc_buffer = Some [7, 0, 0, 0], dac_buffer = Some [0, 0, 0, 0],
      adc_buffer_pos = 1, dac_buffer_pos = 3,
      work_queue = [\<lparr>adc_pos = 0, dac_pos = 2\<rparr>],
      effects = [OpMalloc, OpDispatch \<lparr>adc_pos = 0, dac_pos = 2\<rparr>, OpFree,
        OpAdcStore 0 7, OpDacOut 0]\<rparr>"
  by (simp add: run_defs)

lemma pipeline_run_dac_untouched:
  assumes "pipeline_run cfg dispatch evs s = Inr s'" "\<not> worker_wrote p evs"
    and "dac_buffer s = Some d"
  shows "\<exists>d'. dac_buffer s' = Some d' \<and> length d' = length d \<and> d' ! p = d ! p"
  using assms
proof (induction evs arbitrary: s d)
  case Nil
  then show ?case by simp
next
  case (Cons ev evs)
  from Cons.prems(1) obtain s1 where s1: "pipeline_step cfg dispatch ev s = Inr s1"
    "pipeline_run cfg dispatch evs s1 = Inr s'"
    by (auto simp: and_then_Inr_iff)
  show ?case
  proof (cases ev)
    case (Tick inp)
    with s1(1) have "adc_timer_intr_handler cfg dispatch inp s = Inr s1" by simp
    from handler_frame(1)[OF this] Cons.prems(3) have d1: "dac_buffer s1 = Some d" by simp
    from Cons.prems(2) Tick have "\<not> worker_wrote p evs" by simp
    from Cons.IH[OF s1(2) this d1] show ?thesis .
  next
    case (WorkerStore i v)
    with s1(1) have w: "worker_store i v s = Inr s1" by simp
    from worker_store_frame(6)[OF w] Cons.prems(3)
    have d1: "dac_buffer s1 = Some (d[i := v])" by auto
    from Cons.prems(2) WorkerStore have n: "i \<noteq> p" "\<not> worker_wrote p evs" by simp_all
    from Cons.IH[OF s1(2) n(2) d1] n(1) show ?thesis by simp
  qed
qed

subsection \<open>The output before the algorithm has written\<close>

text \<open>
  C10. For a block size between 1 and the capacity and a capacity of at most 65536: after
  a successful \<open>adc_buffer_init\<close> both buffers hold zeros only, the input cursor is 0
  and the output cursor is capacity minus block size. In every state the pipeline reaches
  from there the output cursor indexes into the output buffer; if the worker has not
  stored to that index, the element there is 0 and the next run of the handler returns
  and passes 0 to the DAC, provided \<open>malloc\<close> returns a block if it is called.
\<close>

theorem dac_emits_zero_until_written:
  assumes "0 < adc_algo_size cfg" "adc_algo_size cfg \<le> ADC_BUFFER_SIZE cfg"
    and "ADC_BUFFER_SIZE cfg \<le> 65536"
    and "adc_buffer_init cfg env s0 = (ESP_OK, s1)"
    and "pipeline_run cfg dispatch evs s1 = Inr s"
    and "\<not> worker_wrote (unat (dac_buffer_pos s)) evs"
    and "unat (adc_buffer_pos s) mod adc_algo_size cfg = 0 \<longrightarrow> malloc_ok inp"
  shows "adc_buffer s1 = Some (replicate (ADC_BUFFER_SIZE cfg) 0) \<and>
         dac_buffer s1 = Some (replicate (ADC_BUFFER_SIZE cfg) 0) \<and>
         unat (adc_buffer_pos s1) = 0 \<and>
         unat (dac_buffer_pos s1) = ADC_BUFFER_SIZE cfg - adc_algo_size cfg \<and>
         (\<exists>dbuf s'. dac_buffer s = Some dbuf \<and> length dbuf = ADC_BUFFER_SIZE cfg \<and>
            unat (dac_buffer_pos s) < ADC_BUFFER_SIZE cfg \<and>
            dbuf ! unat (dac_buffer_pos s) = 0 \<and>
            dac_output (dac_buffer s) (dac_buffer_pos s) = Inr 0 \<and>
            adc_timer_intr_handler cfg dispatch inp s = Inr s' \<and>
            effects s' = effects s
              @ (if unat (adc_buffer_pos s) mod adc_algo_size cfg = 0
                 then [OpMalloc, OpDispatch \<lparr>adc_pos = adc_buffer_pos s, dac_pos = dac_buffer_pos s\<rparr>, OpFree]
                 else [])
              @ [OpAdcStore (unat (adc_buffer_pos s)) (sample inp), OpDacOut 0])"
proof -
  let ?C = "ADC_BUFFER_SIZE cfg" and ?B = "adc_algo_size cfg"
  from assms(1,2) have C: "0 < ?C" by simp
  note i = adc_buffer_init_ok[OF assms(4)]
  have "unat (dac_buffer_pos s1) = (?C - ?B) mod 65536"
    by (simp only: i(4) unat_init_dac_pos[OF assms(2)])
  moreover have "?C - ?B < 65536" using assms(1,2,3) by simp
  ultimately have d1: "unat (dac_buffer_pos s1) = ?C - ?B" by simp
  have a1: "unat (adc_buffer_pos s1) = 0" by (simp add: i(3))
  have inv1: "pipeline_inv cfg s1" by (rule adc_buffer_init_inv[OF assms(4,1,2)])
  have inv: "pipeline_inv cfg s" by (rule pipeline_run_inv[OF assms(5) inv1 C])
  from inv obtain abuf dbuf where b: "adc_buffer s = Some abuf"
    "unat (adc_buffer_pos s) < length abuf" "dac_buffer s = Some dbuf"
    "unat (dac_buffer_pos s) < length dbuf"
    by (rule pipeline_inv_buffers)
  from pipeline_run_dac_untouched[OF assms(5,6) i(2)] b(3)
  have len: "length dbuf = ?C"
    and z0: "dbuf ! unat (dac_buffer_pos s) = replicate ?C 0 ! unat (dac_buffer_pos s)"
    by auto
  from b(4) len have r: "unat (dac_buffer_pos s) < ?C" by simp
  then have z: "dbuf ! unat (dac_buffer_pos s) = 0"
    by (simp add: z0)
  have out: "dac_output (dac_buffer s) (dac_buffer_pos s) = Inr 0"
    using b(3,4) z by (simp add: dac_output_def)
  have "\<exists>s'. adc_timer_intr_handler cfg dispatch inp s = Inr s' \<and>
               effects s' = effects s
                 @ (if unat (adc_buffer_pos s) mod ?B = 0
                    then [OpMalloc, OpDispatch \<lparr>adc_pos = adc_buffer_pos s, dac_pos = dac_buffer_pos s\<rparr>, OpFree]
                    else [])
                 @ [OpAdcStore (unat (adc_buffer_pos s)) (sample inp), OpDacOut 0]"
    by (simp add: handler_closed[OF assms(1) C b assms(7)] z)
  with i(1,2) a1 d1 b(3) len r z out show ?thesis by simp
qed

theorem dac_emits_zero_until_written_witness:
  "dac_output (Some [9, 0, 0, 0]) 3 = Inr 0 \<and>
   adc_timer_intr_handler \<lparr>ADC_BUFFER_SIZE = 4, adc_algo_size = 2\<rparr> (try_enqueue 1)
     \<lparr>sample = 8, malloc_ok = False\<rparr>
     \<lparr>adc_buffer = Some [7, 0, 0, 0], dac_buffer = Some [9, 0, 0, 0],
      adc_buffer_pos = 1, dac_buffer_pos = 3,
      work_queue = [\<lparr>adc_pos = 0, dac_pos = 2\<rparr>],
      effects = [OpMalloc, OpDispatch \<lparr>adc_pos = 0, dac_pos = 2\<rparr>, OpFree, OpAdcStore 0 7, OpDacOut 0]\<rparr> =
   Inr \<lparr>adc_buffer = Some [7, 8, 0, 0], dac_buffer = Some [9, 0, 0, 0],
      adc_buffer_pos = 2, dac_buffer_pos = 0,
      work_queue = [\<lparr>adc_pos = 0, dac_pos = 2\<rparr>],
      effects = [OpMalloc, OpDispatch \<lparr>adc_pos = 0, dac_pos = 2\<rparr>, OpFree, OpAdcStore 0 7, OpDacOut 0,
        OpAdcStore 1 8, OpDacOut 0]\<rparr> \<and>
   unat (dac_buffer_pos \<lparr>adc_buffer = Some [0, 0, 0, 0], dac_buffer = Some [0, 0, 0, 0],
      adc_buffer_pos = 0, dac_buffer_pos = 2,
      work_queue = ([] :: adc_evt_params list), effects = []\<rparr>) = 4 - 2"
proof -
  let ?cfg = "\<lparr>ADC_BUFFER_SIZE = 4, adc_algo_size = 2\<rparr>"
  let ?env = "\<lparr>calloc_adc_ok = True, calloc_dac_ok = True\<rparr>"
  let ?s1 = "\<lparr>adc_buffer = Some [0, 0, 0, 0], dac_buffer = Some [0, 0, 0, 0],
      adc_buffer_pos = 0, dac_buffer_pos = 2,
      work_queue = ([] :: adc_evt_params list), effects = []\<rparr>"
  let ?s = "\<lparr>adc_buffer = Some [7, 0, 0, 0], dac_buffer = Some [9, 0, 0, 0],
        adc_buffer_pos = 1, dac_buffer_pos = 3,
        work_queue = [\<lparr>adc_pos = 0, dac_pos = 2\<rparr>],
        effects = [OpMalloc, OpDispatch \<lparr>adc_pos = 0, dac_pos = 2\<rparr>, OpFree, OpAdcStore 0 7, OpDacOut 0]\<rparr>"
  let ?evs = "[Tick \<lparr>sample = 7, malloc_ok = True\<rparr>, WorkerStore 0 9]"
  let ?inp = "\<lparr>sample = 8, malloc_ok = False\<rparr>"
  have b: "0 < adc_algo_size ?cfg" and c: "adc_algo_size ?cfg \<le> ADC_BUFFER_SIZE ?cfg"
    and c16: "ADC_BUFFER_SIZE ?cfg \<le> 65536"
    by simp_all
  have i: "adc_buffer_init ?cfg ?env (boot_state []) = (ESP_OK, ?s1)"
    by (simp add: run_defs replicate_4)
  have r: "pipeline_run ?cfg (try_enqueue 1) ?evs ?s1 = Inr ?s"
    by (simp add: run_defs)
  have w: "\<not> worker_wrote (unat (dac_buffer_pos ?s)) ?evs"
    by simp
  have m: "unat (adc_buffer_pos ?s) mod adc_algo_size ?cfg = 0 \<longrightarrow> malloc_ok ?inp"
    by simp
  have t: "adc_timer_intr_handler ?cfg (try_enqueue 1) ?inp ?s =
    Inr \<lparr>adc_buffer = Some [7, 8, 0, 0], dac_buffer = Some [9, 0, 0, 0],
      adc_buffer_pos = 2, dac_buffer_pos = 0,
      work_queue = [\<lparr>adc_pos = 0, dac_pos = 2\<rparr>],
      effects = [OpMalloc, OpDispatch \<lparr>adc_pos = 0, dac_pos = 2\<rparr>, OpFree, OpAdcStore 0 7, OpDacOut 0,
        OpAdcStore 1 8, OpDacOut 0]\<rparr>"
    by (simp add: run_defs)
  from dac_emits_zero_until_written[OF b c c16 i r w m] t show ?thesis
    by simp
qed

text \<open>
  With a capacity of 4 and a block size of 6 initialisation succeeds and leaves the
  output cursor at 65534: the first run of the handler reads outside the output buffer.
  With a capacity of 131072 and a block size of 65536 the output cursor is 0, and the
  capacity minus the block size is 65536.
\<close>

theorem dac_emits_zero_counterexample:
  "adc_buffer_init \<lparr>ADC_BUFFER_SIZE = 4, adc_algo_size = 6\<rparr>
     \<lparr>calloc_adc_ok = True, calloc_dac_ok = True\<rparr> (boot_state ([] :: adc_evt_params list)) =
   (ESP_OK,
    \<lparr>adc_buffer = Some [0, 0, 0, 0], dac_buffer = Some [0, 0, 0, 0],
     adc_buffer_pos = 0, dac_buffer_pos = 65534,
     work_queue = [], effects = []\<rparr>) \<and>
   adc_timer_intr_handler \<lparr>ADC_BUFFER_SIZE = 4, adc_algo_size = 6\<rparr> (try_enqueue 1)
     \<lparr>sample = 7, malloc_ok = True\<rparr>
     \<lparr>adc_buffer = Some [0, 0, 0, 0], dac_buffer = Some [0, 0, 0, 0],
      adc_buffer_pos = 0, dac_buffer_pos = 65534,
      work_queue = [], effects = []\<rparr> =
   Inl (OutOfBounds,
     \<lparr>adc_buffer = Some [7, 0, 0, 0], dac_buffer = Some [0, 0, 0, 0],
      adc_buffer_pos = 0, dac_buffer_pos = 65534,
      work_queue = [\<lparr>adc_pos = 0, dac_pos = 65534\<rparr>],
      effects = [OpMalloc, OpDispatch \<lparr>adc_pos = 0, dac_pos = 65534\<rparr>, OpFree, OpAdcStore 0 7]\<rparr>) \<and>
   dac_buffer_pos (snd (adc_buffer_init \<lparr>ADC_BUFFER_SIZE = 131072, adc_algo_size = 65536\<rparr>
     \<lparr>calloc_adc_ok = True, calloc_dac_ok = True\<rparr> (boot_state ([] :: adc_evt_params list)))) = 0 \<and>
   ADC_BUFFER_SIZE \<lparr>ADC_BUFFER_SIZE = 131072, adc_algo_size = 65536\<rparr>
     - adc_algo_size \<lparr>ADC_BUFFER_SIZE = 131072, adc_algo_size = 65536\<rparr> = 65536"
  by (simp add: run_defs replicate_4)

subsection \<open>The status of initialisation\<close>

text \<open>
  C5. \<open>adc_buffer_init\<close> returns \<open>ESP_ERR_NO_MEM\<close>, which is not \<open>ESP_OK\<close>, if
  one of the two allocations fails and \<open>ESP_OK\<close> otherwise, whatever the block size and
  the capacity are. When both allocations succeed, \<open>adc_init\<close> returns the status of the
  timer set-up and leaves the state \<open>adc_buffer_init\<close> built.
\<close>

theorem adc_buffer_init_status:
  "fst (adc_buffer_init cfg env s) =
     (if calloc_adc_ok env \<and> calloc_dac_ok env then ESP_OK else ESP_ERR_NO_MEM) \<and>
   ESP_ERR_NO_MEM \<noteq> ESP_OK \<and>
   (calloc_adc_ok env \<and> calloc_dac_ok env \<longrightarrow>
      fst (adc_init cfg env tenv s) = timer_isr_callback_add_ret tenv \<and>
      snd (adc_init cfg env tenv s) = snd (adc_buffer_init cfg env s))"
  by (simp add: adc_buffer_init_def adc_init_def adc_timer_init_def Let_def ESP_OK_def
      ESP_ERR_NO_MEM_def split: prod.splits)

theorem adc_buffer_init_status_witness:
  "fst (adc_init \<lparr>ADC_BUFFER_SIZE = 4, adc_algo_size = 2\<rparr>
     \<lparr>calloc_adc_ok = True, calloc_dac_ok = True\<rparr>
     \<lparr>timer_init_ret = 0, timer_set_counter_value_ret = 0, timer_enable_intr_ret = 0,
      timer_set_alarm_value_ret = 0, timer_isr_callback_add_ret = 0x102\<rparr>
     (boot_state ([] :: adc_evt_params list))) = 0x102 \<and>
   fst (adc_buffer_init \<lparr>ADC_BUFFER_SIZE = 4, adc_algo_size = 2\<rparr>
     \<lparr>calloc_adc_ok = True, calloc_dac_ok = False\<rparr>
     (boot_state ([] :: adc_evt_params list))) = ESP_ERR_NO_MEM"
  using adc_buffer_init_status[of "\<lparr>ADC_BUFFER_SIZE = 4, adc_algo_size = 2\<rparr>"
      "\<lparr>calloc_adc_ok = True, calloc_dac_ok = True\<rparr>" "boot_state ([] :: adc_evt_params list)"
      "\<lparr>timer_init_ret = 0, timer_set_counter_value_ret = 0, timer_enable_intr_ret = 0,
      timer_set_alarm_value_ret = 0, timer_isr_callback_add_ret = 0x102\<rparr>"]
    adc_buffer_init_status[of "\<lparr>ADC_BUFFER_SIZE = 4, adc_algo_size = 2\<rparr>"
      "\<lparr>calloc_adc_ok = True, calloc_dac_ok = False\<rparr>" "boot_state ([] :: adc_evt_params list)"]
  by simp

text \<open>
  A block size of 3 does not divide a capacity of 8, and \<open>adc_init\<close> returns
  \<open>ESP_OK\<close>.
\<close>

theorem adc_init_counterexample:
  "\<not> adc_algo_size \<lparr>ADC_BUFFER_SIZE = 8, adc_algo_size = 3\<rparr>
       dvd ADC_BUFFER_SIZE \<lparr>ADC_BUFFER_SIZE = 8, adc_algo_size = 3\<rparr> \<and>
   fst (adc_init \<lparr>ADC_BUFFER_SIZE = 8, adc_algo_size = 3\<rparr>
     \<lparr>calloc_adc_ok = True, calloc_dac_ok = True\<rparr>
     \<lparr>timer_init_ret = ESP_OK, timer_set_counter_value_ret = ESP_OK, timer_enable_intr_ret = ESP_OK,
      timer_set_alarm_value_ret = ESP_OK, timer_isr_callback_add_ret = ESP_OK\<rparr>
     (boot_state ([] :: adc_evt_params list))) = ESP_OK"
  by (simp add: adc_buffer_init_def adc_init_def adc_timer_init_def Let_def ESP_OK_def)

text \<open>
  The status of \<open>adc_buffer_init\<close> is overwritten by the one of \<open>adc_timer_init\<close>.
\<close>

lemma adc_init_after_failed_allocation:
  "fst (adc_init cfg \<lparr>calloc_adc_ok = False, calloc_dac_ok = ok\<rparr> tenv s)
     = timer_isr_callback_add_ret tenv"
  by (simp add: adc_buffer_init_def adc_init_def adc_timer_init_def Let_def)

section \<open>Properties of the masking algorithm\<close>

lemma sqrt_3_4: "sqrt (3\<^sup>2 + 4\<^sup>2) = 5"
proof -
  have "sqrt (3\<^sup>2 + 4\<^sup>2) = sqrt (5\<^sup>2)" by simp
  also have "\<dots> = \<bar>5\<bar>" by (rule real_sqrt_abs)
  finally show ?thesis by simp
qed

text \<open>
  C4. A call of \<open>algo_masking\<close> that returns leaves \<open>out_buff\<close> as it was handed in,
  and leaves the output array and the size of the transform plan as they were: no
  transform is run and no output sample is written.
\<close>

theorem algo_masking_writes_nothing:
  assumes "algo_masking fa st plan in_buff out_buff in_pos out_pos multisamples = Inr (st', plan', out')"
  shows "out' = out_buff \<and> output_fft plan' = output_fft plan \<and> size_fft plan' = size_fft plan"
proof -
  from assms obtain inp peak where
    "(st', plan', out') =
       (st\<lparr>s_algo_max_magnitude := fst peak, s_algo_fundamental_freq := snd peak\<rparr>,
        plan\<lparr>input_fft := inp\<rparr>, out_buff)"
    unfolding algo_masking_def and_then_Inr_iff by blast
  then show ?thesis by simp
qed

theorem algo_masking_writes_nothing_witness:
  "algo_masking exact_arith (algo_masking_init \<lparr>read_size = 4, period = 30\<rparr> masking_statics)
      \<lparr>size_fft = 4, input_fft = [Finite 0, Finite 0, Finite 0, Finite 0],
       output_fft = [Finite 0, Finite 0, Finite 3, Finite 4]\<rparr>
      [1, 2, 3, 4] [9, 9, 9, 9] 0 0 1 =
   Inr ((algo_masking_init \<lparr>read_size = 4, period = 30\<rparr> masking_statics)
          \<lparr>s_algo_max_magnitude := Finite 5, s_algo_fundamental_freq := PlusInf\<rparr>,
        \<lparr>size_fft = 4, input_fft = [Finite 1, Finite 2, Finite 3, Finite 4],
         output_fft = [Finite 0, Finite 0, Finite 3, Finite 4]\<rparr>,
        [9, 9, 9, 9]) \<and>
   output_fft \<lparr>size_fft = 4, input_fft = [Finite 1, Finite 2, Finite 3, Finite 4],
         output_fft = [Finite 0, Finite 0, Finite 3, Finite 4]\<rparr> =
   output_fft \<lparr>size_fft = 4, input_fft = [Finite 0, Finite 0, Finite 0, Finite 0],
       output_fft = [Finite 0, Finite 0, Finite 3, Finite 4]\<rparr>"
proof -
  have k: "nat (4 sdiv 2) - 1 = Suc 0"
    by (simp add: signed_divide_int_def)
  have four: "(4 :: nat) = Suc (Suc (Suc (Suc 0)))"
    by simp
  have c0: "masking_copy [1, 2, 3, 4] 0 0 (Suc (Suc (Suc (Suc 0))))
      [Finite 0, Finite 0, Finite 0, Finite 0] = Inr [Finite 1, Finite 2, Finite 3, Finite 4]"
    by (simp add: float_of_int_def)
  have c: "masking_copy [1, 2, 3, 4] 0 0 4
      [Finite 0, Finite 0, Finite 0, Finite 0] = Inr [Finite 1, Finite 2, Finite 3, Finite 4]"
    by (subst four) (rule c0)
  have m: "masking_scan exact_arith (Finite 0) [Finite 0, Finite 0, Finite 3, Finite 4] (Suc 0) (Suc 0)
      (Finite 0, Finite 0) = Inr (Finite 5, PlusInf)"
    by (simp add: exact_arith_def bin_freq_def Let_def sqrt_3_4)
  have e: "algo_masking exact_arith (algo_masking_init \<lparr>read_size = 4, period = 30\<rparr> masking_statics)
      \<lparr>size_fft = 4, input_fft = [Finite 0, Finite 0, Finite 0, Finite 0],
       output_fft = [Finite 0, Finite 0, Finite 3, Finite 4]\<rparr>
      [1, 2, 3, 4] [9, 9, 9, 9] 0 0 1 =
   Inr ((algo_masking_init \<lparr>read_size = 4, period = 30\<rparr> masking_statics)
          \<lparr>s_algo_max_magnitude := Finite 5, s_algo_fundamental_freq := PlusInf\<rparr>,
        \<lparr>size_fft = 4, input_fft = [Finite 1, Finite 2, Finite 3, Finite 4],
         output_fft = [Finite 0, Finite 0, Finite 3, Finite 4]\<rparr>,
        [9, 9, 9, 9])"
    unfolding algo_masking_def
    by (simp add: algo_masking_init_def masking_statics_def float_of_int_def
        signed_divide_int_def k c m and_then_def del: masking_copy.simps masking_scan.simps)
  from algo_masking_writes_nothing[OF e] e show ?thesis by simp
qed

text \<open>
  C6. The initialiser of \<open>s_algo_total_time\<close> is the int quotient 2048 / 40000, which
  is 0: the stored value is 0.0 and not 0.0512, \<open>algo_masking_init\<close> does not change it,
  and the frequency \<open>1 / s_algo_total_time\<close> of bin 1 is plus infinity.
\<close>

theorem s_algo_total_time_zero:
  "s_algo_total_time masking_statics = Finite 0 \<and>
   s_algo_total_time masking_statics \<noteq> Finite (512 / 10000) \<and>
   s_algo_total_time (algo_masking_init params masking_statics) = Finite 0 \<and>
   bin_freq fa 1 (s_algo_total_time masking_statics) = PlusInf"
  by (simp add: masking_statics_def float_of_int_def algo_masking_init_def bin_freq_def
      signed_divide_int_def)

subsection \<open>The peak of the spectrum\<close>

lemma float_gt_irrefl: "\<not> float_gt a a"
  by (cases a) simp_all

lemma float_gt_trans: "float_gt a b \<Longrightarrow> float_gt b c \<Longrightarrow> float_gt a c"
  by (cases a; cases b; cases c) simp_all

lemma float_gt_asym: "float_gt a b \<Longrightarrow> \<not> float_gt b a"
  by (cases a; cases b) simp_all

lemma masking_scan_peak:
  assumes "masking_scan fa t out k n peak = Inr peak'"
  shows "(peak' = peak \<or>
          (\<exists>j. k \<le> j \<and> j < k + n \<and>
             peak' = (fl_mag fa (out ! (2 * j)) (out ! (2 * j + 1)), bin_freq fa (int j) t) \<and>
             float_gt (fst peak') (fst peak))) \<and>
         (\<forall>j. k \<le> j \<and> j < k + n \<longrightarrow>
             \<not> float_gt (fl_mag fa (out ! (2 * j)) (out ! (2 * j + 1))) (fst peak'))"
  using assms
proof (induction n arbitrary: k peak)
  case 0
  then show ?case by auto
next
  case (Suc n)
  let ?mag = "fl_mag fa (out ! (2 * k)) (out ! (2 * k + 1))"
  let ?p1 = "if float_gt ?mag (fst peak) then (?mag, bin_freq fa (int k) t) else peak"
  from Suc.prems have rec: "masking_scan fa t out (Suc k) n ?p1 = Inr peak'"
    by (simp add: Let_def split: if_splits)
  note ih = Suc.IH[OF rec]
  have nk: "\<not> float_gt ?mag (fst ?p1)"
    by (simp add: float_gt_irrefl)
  from ih have grow: "peak' = ?p1 \<or> float_gt (fst peak') (fst ?p1)"
    by blast
  have first: "peak' = peak \<or>
          (\<exists>j. k \<le> j \<and> j < k + Suc n \<and>
             peak' = (fl_mag fa (out ! (2 * j)) (out ! (2 * j + 1)), bin_freq fa (int j) t) \<and>
             float_gt (fst peak') (fst peak))"
  proof (cases "peak' = ?p1")
    case True
    show ?thesis
    proof (cases "float_gt ?mag (fst peak)")
      case True
      with \<open>peak' = ?p1\<close> have "peak' = (?mag, bin_freq fa (int k) t)" "float_gt (fst peak') (fst peak)"
        by simp_all
      then have "k \<le> k \<and> k < k + Suc n \<and>
             peak' = (fl_mag fa (out ! (2 * k)) (out ! (2 * k + 1)), bin_freq fa (int k) t) \<and>
             float_gt (fst peak') (fst peak)" by simp
      then show ?thesis by (intro disjI2 exI[of _ k])
    next
      case False
      with \<open>peak' = ?p1\<close> show ?thesis by simp
    qed
  next
    case False
    with ih obtain j where j: "Suc k \<le> j" "j < Suc k + n"
      "peak' = (fl_mag fa (out ! (2 * j)) (out ! (2 * j + 1)), bin_freq fa (int j) t)"
      "float_gt (fst peak') (fst ?p1)"
      by blast
    have "float_gt (fst peak') (fst peak)"
    proof (cases "float_gt ?mag (fst peak)")
      case True
      then have "float_gt (fst ?p1) (fst peak)" by simp
      from float_gt_trans[OF j(4) this] show ?thesis .
    next
      case False
      with j(4) show ?thesis by simp
    qed
    with j(1,2,3) have "k \<le> j \<and> j < k + Suc n \<and>
             peak' = (fl_mag fa (out ! (2 * j)) (out ! (2 * j + 1)), bin_freq fa (int j) t) \<and>
             float_gt (fst peak') (fst peak)" by simp
    then show ?thesis by (intro disjI2 exI[of _ j])
  qed
  have second: "\<not> float_gt (fl_mag fa (out ! (2 * j)) (out ! (2 * j + 1))) (fst peak')"
    if r: "k \<le> j" "j < k + Suc n" for j
  proof (cases "j = k")
    case True
    from grow show ?thesis
    proof
      assume "peak' = ?p1"
      with nk True show ?thesis by simp
    next
      assume g: "float_gt (fst peak') (fst ?p1)"
      show ?thesis
      proof
        assume "float_gt (fl_mag fa (out ! (2 * j)) (out ! (2 * j + 1))) (fst peak')"
        from float_gt_trans[OF this g] nk True show False by simp
      qed
    qed
  next
    case False
    with r have "Suc k \<le> j \<and> j < Suc k + n" by simp
    with ih show ?thesis by blast
  qed
  from first second show ?case by blast
qed

lemma algo_masking_example:
  "algo_masking exact_arith (algo_masking_init \<lparr>read_size = 4, period = 30\<rparr> masking_statics)
      \<lparr>size_fft = 4, input_fft = [Finite 0, Finite 0, Finite 0, Finite 0],
       output_fft = [Finite 0, Finite 0, Finite 3, Finite 4]\<rparr>
      [1, 2, 3, 4] [9, 9, 9, 9] 0 0 1 =
   Inr ((algo_masking_init \<lparr>read_size = 4, period = 30\<rparr> masking_statics)
          \<lparr>s_algo_max_magnitude := Finite 5, s_algo_fundamental_freq := PlusInf\<rparr>,
        \<lparr>size_fft = 4, input_fft = [Finite 1, Finite 2, Finite 3, Finite 4],
         output_fft = [Finite 0, Finite 0, Finite 3, Finite 4]\<rparr>,
        [9, 9, 9, 9])"
proof -
  have k: "nat (4 sdiv 2) - 1 = Suc 0"
    by (simp add: signed_divide_int_def)
  have four: "(4 :: nat) = Suc (Suc (Suc (Suc 0)))"
    by simp
  have c0: "masking_copy [1, 2, 3, 4] 0 0 (Suc (Suc (Suc (Suc 0))))
      [Finite 0, Finite 0, Finite 0, Finite 0] = Inr [Finite 1, Finite 2, Finite 3, Finite 4]"
    by (simp add: float_of_int_def)
  have c: "masking_copy [1, 2, 3, 4] 0 0 4
      [Finite 0, Finite 0, Finite 0, Finite 0] = Inr [Finite 1, Finite 2, Finite 3, Finite 4]"
    by (subst four) (rule c0)
  have m: "masking_scan exact_arith (Finite 0) [Finite 0, Finite 0, Finite 3, Finite 4] (Suc 0) (Suc 0)
      (Finite 0, Finite 0) = Inr (Finite 5, PlusInf)"
    by (simp add: exact_arith_def bin_freq_def Let_def sqrt_3_4)
  show ?thesis
    unfolding algo_masking_def
    by (simp add: algo_masking_init_def masking_statics_def float_of_int_def
        signed_divide_int_def k c m and_then_def del: masking_copy.simps masking_scan.simps)
qed

text \<open>
  C7. For a call of \<open>algo_masking\<close> that returns, the magnitude of bin \<open>k\<close> being what
  \<open>sqrt(pow(re,2) + pow(im,2))\<close> is stored as for the elements \<open>2k\<close> and \<open>2k+1\<close> of
  the plan's output array: the stored maximum is not below the one before the call; no
  bin \<open>k\<close> with \<open>1 \<le> k < size / 2\<close> has a magnitude above it; the stored maximum and
  frequency are the ones before the call, or they are the magnitude of one of those bins,
  which is above the maximum before the call, and that bin's frequency
  \<open>k / s_algo_total_time\<close>. With \<open>s_algo_total_time\<close> equal to 0.0, which is what the
  file initialises it to, a frequency the call stores is plus infinity.
\<close>

theorem algo_masking_peak:
  assumes "algo_masking fa st plan in_buff out_buff in_pos out_pos multisamples = Inr (st', plan', out')"
  shows "\<not> float_gt (s_algo_max_magnitude st) (s_algo_max_magnitude st') \<and>
     (\<forall>k. 1 \<le> k \<and> k < nat (size_fft plan sdiv 2) \<longrightarrow>
        \<not> float_gt (fl_mag fa (output_fft plan ! (2 * k)) (output_fft plan ! (2 * k + 1)))
             (s_algo_max_magnitude st')) \<and>
     ((s_algo_max_magnitude st', s_algo_fundamental_freq st') =
        (s_algo_max_magnitude st, s_algo_fundamental_freq st) \<or>
      (\<exists>k. 1 \<le> k \<and> k < nat (size_fft plan sdiv 2) \<and>
         s_algo_max_magnitude st' = fl_mag fa (output_fft plan ! (2 * k)) (output_fft plan ! (2 * k + 1)) \<and>
         s_algo_fundamental_freq st' = bin_freq fa (int k) (s_algo_total_time st) \<and>
         float_gt (s_algo_max_magnitude st') (s_algo_max_magnitude st))) \<and>
     (s_algo_total_time st = Finite 0 \<longrightarrow>
        (s_algo_max_magnitude st', s_algo_fundamental_freq st') =
          (s_algo_max_magnitude st, s_algo_fundamental_freq st) \<or>
        s_algo_fundamental_freq st' = PlusInf)"
proof -
  let ?n = "nat (size_fft plan sdiv 2)"
  let ?mag = "\<lambda>k. fl_mag fa (output_fft plan ! (2 * k)) (output_fft plan ! (2 * k + 1))"
  from assms obtain inp peak where
    scan: "masking_scan fa (s_algo_total_time st) (output_fft plan) 1 (?n - 1)
             (s_algo_max_magnitude st, s_algo_fundamental_freq st) = Inr peak"
    and res: "(st', plan', out') =
       (st\<lparr>s_algo_max_magnitude := fst peak, s_algo_fundamental_freq := snd peak\<rparr>,
        plan\<lparr>input_fft := inp\<rparr>, out_buff)"
    unfolding algo_masking_def and_then_Inr_iff by blast
  from res have p: "peak = (s_algo_max_magnitude st', s_algo_fundamental_freq st')"
    by auto
  note sp = masking_scan_peak[OF scan, unfolded p, simplified]
  from sp have C: "(s_algo_max_magnitude st', s_algo_fundamental_freq st') =
        (s_algo_max_magnitude st, s_algo_fundamental_freq st) \<or>
      (\<exists>k. 1 \<le> k \<and> k < ?n \<and>
         s_algo_max_magnitude st' = ?mag k \<and>
         s_algo_fundamental_freq st' = bin_freq fa (int k) (s_algo_total_time st) \<and>
         float_gt (s_algo_max_magnitude st') (s_algo_max_magnitude st))"
    by auto
  from sp have B: "\<forall>k. 1 \<le> k \<and> k < ?n \<longrightarrow> \<not> float_gt (?mag k) (s_algo_max_magnitude st')"
    by auto
  from C have A: "\<not> float_gt (s_algo_max_magnitude st) (s_algo_max_magnitude st')"
    by (auto simp: float_gt_irrefl dest: float_gt_asym)
  have D: "(s_algo_max_magnitude st', s_algo_fundamental_freq st') =
          (s_algo_max_magnitude st, s_algo_fundamental_freq st) \<or>
        s_algo_fundamental_freq st' = PlusInf" if t: "s_algo_total_time st = Finite 0"
    using C by (auto simp: t bin_freq_def)
  from A B C D show ?thesis by blast
qed

theorem algo_masking_peak_witness:
  "\<not> float_gt (Finite 0) (Finite 5) \<and>
   \<not> float_gt (fl_mag exact_arith (Finite 3) (Finite 4)) (Finite 5) \<and>
   s_algo_max_magnitude
     ((algo_masking_init \<lparr>read_size = 4, period = 30\<rparr> masking_statics)
          \<lparr>s_algo_max_magnitude := Finite 5, s_algo_fundamental_freq := PlusInf\<rparr>) = Finite 5 \<and>
   s_algo_fundamental_freq
     ((algo_masking_init \<lparr>read_size = 4, period = 30\<rparr> masking_statics)
          \<lparr>s_algo_max_magnitude := Finite 5, s_algo_fundamental_freq := PlusInf\<rparr>) = PlusInf"
  using algo_masking_peak[OF algo_masking_example]
  by (simp add: exact_arith_def sqrt_3_4)

subsection \<open>Initialisation of the algorithm\<close>

text \<open>
  C8. \<open>algo_masking_deinit\<close> followed by \<open>algo_masking_init\<close> sets the read size and
  the period from the parameters and keeps \<open>s_algo_max_magnitude\<close> and
  \<open>s_algo_fundamental_freq\<close>; the two are zero at program start, from their
  initialisers.
\<close>

theorem algo_masking_init_keeps_peak:
  "s_algo_max_magnitude (algo_masking_init params (algo_masking_deinit st)) = s_algo_max_magnitude st \<and>
   s_algo_fundamental_freq (algo_masking_init params (algo_masking_deinit st)) = s_algo_fundamental_freq st \<and>
   s_algo_template_read_size (algo_masking_init params (algo_masking_deinit st)) = read_size params \<and>
   s_period (algo_masking_init params (algo_masking_deinit st)) = period params \<and>
   s_algo_max_magnitude masking_statics = Finite 0 \<and>
   s_algo_fundamental_freq masking_statics = Finite 0"
  by (simp add: algo_masking_init_def algo_masking_deinit_def masking_statics_def float_of_int_def)

text \<open>
  A peak of 5 at frequency plus infinity, left by an earlier call, is still there after
  \<open>algo_masking_deinit\<close> and \<open>algo_masking_init\<close>.
\<close>

theorem algo_masking_init_counterexample:
  "s_algo_max_magnitude
     (algo_masking_init \<lparr>read_size = 4, period = 30\<rparr>
       (algo_masking_deinit (masking_statics\<lparr>s_algo_max_magnitude := Finite 5,
          s_algo_fundamental_freq := PlusInf\<rparr>))) = Finite 5 \<and>
   s_algo_fundamental_freq
     (algo_masking_init \<lparr>read_size = 4, period = 30\<rparr>
       (algo_masking_deinit (masking_statics\<lparr>s_algo_max_magnitude := Finite 5,
          s_algo_fundamental_freq := PlusInf\<rparr>))) = PlusInf \<and>
   Finite 5 \<noteq> Finite 0 \<and> PlusInf \<noteq> Finite 0"
  by (simp add: algo_masking_init_def algo_masking_deinit_def masking_statics_def)

end
